theory Spec2Isabelle
  imports Complex_Main "HOL-Library.Log_Nat" "HOL-Library.Option_ord" "HOL-Library.Product_Lexorder"
    "HOL-Library.Multiset"
begin

text \<open>
  A shallow embedding of the decision engine of the Monopoly bot: the tables and the
  accessors of \<open>board_mapping.py\<close> and the valuation and decision functions of
  \<open>strategic_ai.py\<close>, followed by the properties of them that are proved. Integers are
  Python's unbounded integers (\<open>int\<close>), floats are binary64 values with their rounding,
  sets of positions are sets, and dictionaries whose order matters are association lists.
\<close>

section \<open>Python values\<close>

subsection \<open>Floats\<close>

text \<open>
  A finite Python float is the rational number it denotes. Every float operation of the
  source is the exact operation followed by rounding to the nearest binary64 value
  (53 significant bits, ties to the even significand). \<open>flog2 x\<close> is the binary
  exponent of a positive \<open>x\<close>. The exponent range is left open in \<open>rnd\<close>; the only
  place of the source where a value can leave it is the conversion of an unbounded
  integer (the net worth) to a float, which raises OverflowError and is modelled where
  it happens.
\<close>

type_synonym pyfloat = rat


definition round_half_even :: "rat \<Rightarrow> int" where
  "round_half_even y =
     (let f = \<lfloor>y\<rfloor>; d = y - of_int f
      in if d < 1 / 2 then f else if 1 / 2 < d then f + 1 else if even f then f else f + 1)"

definition flog2 :: "rat \<Rightarrow> int" where
  "flog2 x = (if 1 \<le> x then bitlen \<lfloor>x\<rfloor> - 1 else - bitlen (\<lceil>1 / x\<rceil> - 1))"

definition pow2 :: "int \<Rightarrow> rat" where
  "pow2 k = (if 0 \<le> k then 2 ^ nat k else 1 / 2 ^ nat (- k))"

definition rnd :: "rat \<Rightarrow> pyfloat" where
  "rnd x =
     (if x = 0 then 0
      else let e = flog2 \<bar>x\<bar>;
               m = round_half_even (\<bar>x\<bar> * pow2 (52 - e))
           in sgn x * of_int m * pow2 (e - 52))"

text \<open>A decimal literal of the source, \<open>1.05\<close> say, is the float nearest to it.\<close>

definition py_float :: "rat \<Rightarrow> pyfloat" where
  "py_float q = rnd q"

definition fmul :: "pyfloat \<Rightarrow> pyfloat \<Rightarrow> pyfloat" where
  "fmul a b = rnd (a * b)"

definition fadd :: "pyfloat \<Rightarrow> pyfloat \<Rightarrow> pyfloat" where
  "fadd a b = rnd (a + b)"

text \<open>
  \<open>int * float\<close> converts the integer first. The conversion rounds to nearest and raises
  OverflowError when the rounded value does not fit a binary64 float.
\<close>

definition float_of_int :: "int \<Rightarrow> pyfloat" where
  "float_of_int n = rnd (of_int n)"


text \<open>\<open>int(x)\<close> on a float truncates toward zero.\<close>

definition py_int :: "pyfloat \<Rightarrow> int" where
  "py_int x = (if 0 \<le> x then \<lfloor>x\<rfloor> else \<lceil>x\<rceil>)"

subsection \<open>Dictionaries and truthiness\<close>

text \<open>
  The tables of \<open>board_mapping.py\<close> are dictionaries whose iteration order (insertion
  order) matters, so they are association lists; \<open>d.get(k, default)\<close> is \<open>dict_get\<close>.
  A group is a string, or \<open>None\<close> where \<open>POSITION_TO_GROUP.get\<close> finds nothing.
\<close>

definition dict_get :: "('k \<times> 'v) list \<Rightarrow> 'k \<Rightarrow> 'v \<Rightarrow> 'v" where
  "dict_get d k dflt = (case map_of d k of None \<Rightarrow> dflt | Some v \<Rightarrow> v)"

definition truthy :: "string option \<Rightarrow> bool" where
  "truthy grp = (case grp of None \<Rightarrow> False | Some g \<Rightarrow> g \<noteq> [])"

section \<open>board_mapping.py\<close>

definition GROUP_QUALITY :: "(string \<times> pyfloat) list" where
  "GROUP_QUALITY =
     [(''brown'', py_float (85 / 100)),
      (''lightBlue'', py_float (95 / 100)),
      (''pink'', py_float (95 / 100)),
      (''orange'', py_float (100 / 100)),
      (''red'', py_float (105 / 100)),
      (''yellow'', py_float (120 / 100)),
      (''green'', py_float (130 / 100)),
      (''darkBlue'', py_float (115 / 100)),
      (''railroad'', py_float (100 / 100)),
      (''utility'', py_float (90 / 100))]"

definition LANDING_PROBABILITIES :: "(int \<times> pyfloat) list" where
  "LANDING_PROBABILITIES =
     [(24, py_float (316 / 10000)),
      (0, py_float (312 / 10000)),
      (21, py_float (305 / 10000)),
      (25, py_float (303 / 10000)),
      (10, py_float (62 / 1000)),
      (5, py_float (289 / 10000)),
      (15, py_float (286 / 10000)),
      (35, py_float (280 / 10000))]"

definition PROPERTY_PRICES :: "(int \<times> int) list" where
  "PROPERTY_PRICES =
     [(1, 60), (3, 60),
      (6, 100), (8, 100), (9, 120),
      (11, 140), (13, 140), (14, 160),
      (16, 180), (18, 180), (19, 200),
      (21, 220), (23, 220), (24, 240),
      (26, 260), (27, 260), (29, 280),
      (31, 300), (32, 300), (34, 320),
      (37, 350), (39, 400),
      (5, 200), (15, 200), (25, 200), (35, 200),
      (12, 150), (28, 150)]"

definition RENT_TABLE :: "(int \<times> int list) list" where
  "RENT_TABLE =
     [(1, [2, 4, 10, 30, 90, 160, 250]),
      (3, [4, 8, 20, 60, 180, 320, 450]),
      (6, [6, 12, 30, 90, 270, 400, 550]),
      (8, [6, 12, 30, 90, 270, 400, 550]),
      (9, [8, 16, 40, 100, 300, 450, 600]),
      (11, [10, 20, 50, 150, 450, 625, 750]),
      (13, [10, 20, 50, 150, 450, 625, 750]),
      (14, [12, 24, 60, 180, 500, 700, 900]),
      (16, [14, 28, 70, 200, 550, 750, 950]),
      (18, [14, 28, 70, 200, 550, 750, 950]),
      (19, [16, 32, 80, 220, 600, 800, 1000]),
      (21, [18, 36, 90, 250, 700, 875, 1050]),
      (23, [18, 36, 90, 250, 700, 875, 1050]),
      (24, [20, 40, 100, 300, 750, 925, 1100]),
      (26, [22, 44, 110, 330, 800, 975, 1150]),
      (27, [22, 44, 110, 330, 800, 975, 1150]),
      (29, [24, 48, 120, 360, 850, 1025, 1200]),
      (31, [26, 52, 130, 390, 900, 1100, 1275]),
      (32, [26, 52, 130, 390, 900, 1100, 1275]),
      (34, [28, 56, 150, 450, 1000, 1200, 1400]),
      (37, [35, 70, 175, 500, 1100, 1300, 1500]),
      (39, [50, 100, 200, 600, 1400, 1700, 2000])]"

definition POSITION_TO_GROUP :: "(int \<times> string) list" where
  "POSITION_TO_GROUP =
     [(1, ''brown''), (3, ''brown''),
      (6, ''lightBlue''), (8, ''lightBlue''), (9, ''lightBlue''),
      (11, ''pink''), (13, ''pink''), (14, ''pink''),
      (16, ''orange''), (18, ''orange''), (19, ''orange''),
      (21, ''red''), (23, ''red''), (24, ''red''),
      (26, ''yellow''), (27, ''yellow''), (29, ''yellow''),
      (31, ''green''), (32, ''green''), (34, ''green''),
      (37, ''darkBlue''), (39, ''darkBlue''),
      (5, ''railroad''), (15, ''railroad''), (25, ''railroad''), (35, ''railroad''),
      (12, ''utility''), (28, ''utility'')]"

definition GROUP_PROPERTIES :: "(string \<times> int list) list" where
  "GROUP_PROPERTIES =
     [(''brown'', [1, 3]),
      (''lightBlue'', [6, 8, 9]),
      (''pink'', [11, 13, 14]),
      (''orange'', [16, 18, 19]),
      (''red'', [21, 23, 24]),
      (''yellow'', [26, 27, 29]),
      (''green'', [31, 32, 34]),
      (''darkBlue'', [37, 39]),
      (''railroad'', [5, 15, 25, 35]),
      (''utility'', [12, 28])]"

definition HOUSE_COST :: "(string \<times> int) list" where
  "HOUSE_COST =
     [(''brown'', 50), (''lightBlue'', 50), (''pink'', 100), (''orange'', 100),
      (''red'', 150), (''yellow'', 150), (''green'', 200), (''darkBlue'', 200)]"

text \<open>\<open>POSITION_TO_GROUP.get(position)\<close>: the group of a position, or \<open>None\<close>.\<close>

definition position_group :: "int \<Rightarrow> string option" where
  "position_group position = map_of POSITION_TO_GROUP position"

text \<open>
  \<open>GROUP_PROPERTIES[group]\<close>. The source subscripts only with a group it has read from
  \<open>POSITION_TO_GROUP\<close> or from its own list of colour groups; all of them are keys
  (lemmas \<open>position_group_is_key\<close> and \<open>priority_groups_are_keys\<close>), so the KeyError of a
  missing key is never raised.
\<close>

definition GROUP_PROPERTIES_item :: "string \<Rightarrow> int list" where
  "GROUP_PROPERTIES_item grp = dict_get GROUP_PROPERTIES grp []"

text \<open>\<open>PropertyInfo\<close>: the attributes the valuation reads.\<close>

record PropertyInfo =
  info_position :: int
  info_group :: "string option"
  info_price :: int
  info_rents :: "int list"

definition PropertyInfo_init :: "int \<Rightarrow> PropertyInfo" where
  "PropertyInfo_init position =
     \<lparr>info_position = position,
      info_group = position_group position,
      info_price = dict_get PROPERTY_PRICES position 0,
      info_rents = dict_get RENT_TABLE position (replicate 7 0)\<rparr>"

definition get_rent :: "PropertyInfo \<Rightarrow> nat \<Rightarrow> int" where
  "get_rent prop level =
     (if level < length (info_rents prop) then info_rents prop ! level
      else last (info_rents prop))"

definition get_landing_probability :: "PropertyInfo \<Rightarrow> pyfloat" where
  "get_landing_probability prop =
     dict_get LANDING_PROBABILITIES (info_position prop) (py_float (25 / 1000))"

text \<open>\<open>BoardMapper.properties\<close> has one \<open>PropertyInfo\<close> for each key of \<open>PROPERTY_PRICES\<close>.\<close>

definition board_properties_get :: "int \<Rightarrow> PropertyInfo option" where
  "board_properties_get pos =
     (case map_of PROPERTY_PRICES pos of None \<Rightarrow> None | Some _ \<Rightarrow> Some (PropertyInfo_init pos))"

definition get_group_properties :: "string option \<Rightarrow> int list" where
  "get_group_properties grp =
     (case grp of None \<Rightarrow> [] | Some g \<Rightarrow> dict_get GROUP_PROPERTIES g [])"

definition has_monopoly :: "int set \<Rightarrow> string option \<Rightarrow> bool" where
  "has_monopoly owned_positions grp =
     list_all (\<lambda>pos. pos \<in> owned_positions) (get_group_properties grp)"


definition ept_step :: "int set \<Rightarrow> nat \<Rightarrow> pyfloat \<Rightarrow> int \<Rightarrow> pyfloat" where
  "ept_step owned_positions num_opponents total_ept pos =
     (case board_properties_get pos of
        None \<Rightarrow> total_ept
      | Some prop \<Rightarrow>
          let level = (if has_monopoly owned_positions (info_group prop) then 1 else 0);
              rent = get_rent prop level;
              prob = get_landing_probability prop
          in fadd total_ept
               (fmul (fmul prob (float_of_int rent)) (float_of_int (int num_opponents))))"

definition calculate_ept :: "(int set \<Rightarrow> int list) \<Rightarrow> int set \<Rightarrow> nat \<Rightarrow> pyfloat" where
  "calculate_ept iter owned_positions num_opponents =
     foldl (ept_step owned_positions num_opponents) 0 (iter owned_positions)"

section \<open>strategic_ai.py\<close>

subsection \<open>State\<close>

text \<open>
  The dataclasses of the source. The field \<open>position\<close> of \<open>PlayerState\<close> is
  \<open>board_position\<close> here, and the local variable \<open>group\<close> of the source is \<open>grp\<close>, since
  \<open>position\<close> names the argument of the decision functions and \<open>group\<close> is a constant of
  the library. \<open>houses\<close> is the dictionary from positions to house counts.
\<close>

record PlayerState =
  player_id :: string
  cash :: int
  properties :: "int set"
  board_position :: int
  in_jail :: bool
  mortgaged :: "int set"
  houses :: "int \<rightharpoonup> int"

record GameState =
  my_state :: PlayerState
  opponents :: "PlayerState list"
  current_turn :: string
  turn_number :: int
  available_houses :: int
  available_hotels :: int

record TradeOffer =
  from_player :: string
  to_player :: string
  properties_offered :: "int set"
  properties_requested :: "int set"
  cash_offered :: int
  cash_requested :: int

text \<open>The attributes \<open>StrategicAI.__init__\<close> sets, and the values it gives them.\<close>

record StrategicAI =
  base_bid_premium :: pyfloat
  max_debt_ratio :: pyfloat
  max_absolute_debt :: int
  absolute_min_cash :: int
  smart_blocking :: bool
  min_quality_ratio :: pyfloat
  max_quality_ratio :: pyfloat

definition StrategicAI_init :: StrategicAI where
  "StrategicAI_init =
     \<lparr>base_bid_premium = py_float (5 / 100),
      max_debt_ratio = py_float (15 / 100),
      max_absolute_debt = 400,
      absolute_min_cash = 75,
      smart_blocking = True,
      min_quality_ratio = py_float (85 / 100),
      max_quality_ratio = py_float (140 / 100)\<rparr>"

text \<open>\<open>player.houses.get(pos, 0)\<close>\<close>

definition houses_get :: "PlayerState \<Rightarrow> int \<Rightarrow> int" where
  "houses_get player pos = (case houses player pos of None \<Rightarrow> 0 | Some h \<Rightarrow> h)"

subsection \<open>Valuation\<close>



text \<open>
  \<open>get_monopoly_quality\<close> walks \<open>GROUP_PROPERTIES.items()\<close> in the order of the table and
  adds the quality of every group whose positions are all in the set.
\<close>

definition quality_step :: "int set \<Rightarrow> pyfloat \<Rightarrow> string \<times> int list \<Rightarrow> pyfloat" where
  "quality_step props quality item =
     (if list_all (\<lambda>pos. pos \<in> props) (snd item)
      then fadd quality (dict_get GROUP_QUALITY (fst item) (py_float 1))
      else quality)"

definition get_monopoly_quality :: "int set \<Rightarrow> pyfloat" where
  "get_monopoly_quality props = foldl (quality_step props) 0 GROUP_PROPERTIES"

subsection \<open>Purchase decision\<close>

text \<open>
  The generator summed into \<open>other_blockers\<close>: the opponents other than \<open>opp\<close> that do not
  own the position and own a member of the group. \<open>members\<close> is \<open>GROUP_PROPERTIES[group]\<close>
  in \<open>should_buy_property\<close> and \<open>GROUP_PROPERTIES.get(group, [])\<close> in \<open>get_auction_bid\<close>.
  \<open>o != opp\<close> compares two dataclass instances field by field.
\<close>

definition other_blockers :: "GameState \<Rightarrow> PlayerState \<Rightarrow> int \<Rightarrow> int list \<Rightarrow> nat" where
  "other_blockers state opp position members =
     length (filter (\<lambda>other. other \<noteq> opp \<and> position \<notin> properties other
                              \<and> list_ex (\<lambda>p. p \<in> properties other) members)
                    (opponents state))"

text \<open>
  The loop over the opponents of \<open>should_buy_property\<close>: True when the loop returns True,
  False when it runs to its end.
\<close>

fun buy_blocking_loop :: "StrategicAI \<Rightarrow> GameState \<Rightarrow> int \<Rightarrow> string \<Rightarrow> PlayerState list \<Rightarrow> bool" where
  "buy_blocking_loop ai state position g [] = False"
| "buy_blocking_loop ai state position g (opp # rest) =
     (if has_monopoly (properties opp \<union> {position}) (Some g)
      then (if smart_blocking ai
            then (if other_blockers state opp position (GROUP_PROPERTIES_item g) = 0 then True
                  else buy_blocking_loop ai state position g rest)
            else True)
      else buy_blocking_loop ai state position g rest)"

definition should_buy_property :: "StrategicAI \<Rightarrow> GameState \<Rightarrow> int \<Rightarrow> int \<Rightarrow> bool" where
  "should_buy_property ai state position price =
     (let player = my_state state
      in if cash player - price < absolute_min_cash ai then False
         else case position_group position of
                None \<Rightarrow> True
              | Some g \<Rightarrow>
                  if \<not> truthy (Some g) then True
                  else let props_after = properties player \<union> {position}
                       in if has_monopoly props_after (Some g) then True
                          else if buy_blocking_loop ai state position g (opponents state)
                               then True
                               else cash player - price \<ge> absolute_min_cash ai + 100)"

subsection \<open>Auction decision\<close>

text \<open>
  The blocking loop of \<open>get_auction_bid\<close>: it stops (\<open>break\<close>) at the first opponent that
  would complete the group, whether or not the bid was raised for it.
\<close>

fun auction_blocking_loop ::
  "StrategicAI \<Rightarrow> GameState \<Rightarrow> int \<Rightarrow> string option \<Rightarrow> PlayerState list \<Rightarrow> int \<Rightarrow> int" where
  "auction_blocking_loop ai state position grp [] max_bid = max_bid"
| "auction_blocking_loop ai state position grp (opp # rest) max_bid =
     (if has_monopoly (properties opp \<union> {position}) grp
      then (if smart_blocking ai
            then (if other_blockers state opp position (get_group_properties grp) = 0
                  then py_int (fmul (float_of_int max_bid) (py_float (13 / 10)))
                  else max_bid)
            else py_int (fmul (float_of_int max_bid) (py_float (13 / 10))))
      else auction_blocking_loop ai state position grp rest max_bid)"








subsection \<open>Trade decisions\<close>

text \<open>
  The trade quality filter: the part of \<open>evaluate_trade\<close> after the EPT branch, as a
  function of the values it reads (both qualities after the trade, who gains a monopoly,
  and the offer).
\<close>

definition trade_quality_filter ::
  "StrategicAI \<Rightarrow> pyfloat \<Rightarrow> pyfloat \<Rightarrow> bool \<Rightarrow> bool \<Rightarrow> TradeOffer \<Rightarrow> bool" where
  "trade_quality_filter ai our_quality their_quality we_gain_monopoly they_gain_monopoly offer =
     (if their_quality > fmul our_quality (max_quality_ratio ai) then False
      else if our_quality \<ge> fmul their_quality (min_quality_ratio ai) then True
      else if they_gain_monopoly \<and> \<not> we_gain_monopoly
           then (let net_cash = cash_offered offer - cash_requested offer in net_cash > 200)
           else True)"

definition evaluate_trade ::
  "(int set \<Rightarrow> int list) \<Rightarrow> StrategicAI \<Rightarrow> GameState \<Rightarrow> TradeOffer \<Rightarrow> bool" where
  "evaluate_trade iter ai state offer =
     (let player = my_state state;
          my_props_after = (properties player - properties_requested offer) \<union> properties_offered offer;
          my_cash_after = cash player + cash_offered offer - cash_requested offer
      in if my_cash_after < absolute_min_cash ai then False
         else case find (\<lambda>opp. player_id opp = from_player offer) (opponents state) of
                None \<Rightarrow> False
              | Some proposer \<Rightarrow>
                  let their_props_after =
                        (properties proposer - properties_offered offer) \<union> properties_requested offer;
                      our_quality = get_monopoly_quality my_props_after;
                      their_quality = get_monopoly_quality their_props_after;
                      our_quality_before = get_monopoly_quality (properties player);
                      their_quality_before = get_monopoly_quality (properties proposer);
                      we_gain_monopoly = (our_quality > our_quality_before);
                      they_gain_monopoly = (their_quality > their_quality_before)
                  in if \<not> we_gain_monopoly \<and> \<not> they_gain_monopoly
                     then let ept_before =
                                calculate_ept iter (properties player) (length (opponents state));
                              ept_after =
                                calculate_ept iter my_props_after (length (opponents state));
                              net_cash = cash_offered offer - cash_requested offer
                          in ept_after > ept_before \<or> (ept_after = ept_before \<and> net_cash > 0)
                     else trade_quality_filter ai our_quality their_quality
                            we_gain_monopoly they_gain_monopoly offer)"

text \<open>
  \<open>generate_trade_offers\<close>. The offer built for \<open>their_needed[0]\<close> against \<open>needed_pos\<close>,
  after its cash has been adjusted, and the reverse offer that is evaluated.
\<close>

definition make_offer :: "PlayerState \<Rightarrow> PlayerState \<Rightarrow> int \<Rightarrow> int \<Rightarrow> TradeOffer" where
  "make_offer player opp their_needed0 needed_pos =
     (let our_value = dict_get PROPERTY_PRICES their_needed0 0;
          their_value = dict_get PROPERTY_PRICES needed_pos 0;
          diff = their_value - our_value
      in \<lparr>from_player = player_id player,
          to_player = player_id opp,
          properties_offered = {their_needed0},
          properties_requested = {needed_pos},
          cash_offered = (if diff > 0 then diff else 0),
          cash_requested = (if diff > 0 then 0 else - diff)\<rparr>)"

definition reverse_offer ::
  "PlayerState \<Rightarrow> PlayerState \<Rightarrow> int \<Rightarrow> int \<Rightarrow> TradeOffer \<Rightarrow> TradeOffer" where
  "reverse_offer player opp their_needed0 needed_pos offer =
     \<lparr>from_player = player_id opp,
      to_player = player_id player,
      properties_offered = {needed_pos},
      properties_requested = {their_needed0},
      cash_offered = cash_requested offer,
      cash_requested = cash_offered offer\<rparr>"

text \<open>The innermost loop body: one group of the opponent (\<open>their_group, their_positions\<close>).\<close>

definition their_group_offers ::
  "(int set \<Rightarrow> int list) \<Rightarrow> StrategicAI \<Rightarrow> GameState \<Rightarrow> PlayerState \<Rightarrow> int
     \<Rightarrow> string \<times> int list \<Rightarrow> TradeOffer list" where
  "their_group_offers iter ai state opp needed_pos item =
     (let player = my_state state;
          their_positions = snd item;
          their_owned = filter (\<lambda>p. p \<in> properties opp) their_positions;
          their_needed = filter (\<lambda>p. p \<in> properties player) their_positions
      in if length their_owned > 0 \<and> length their_needed > 0
         then let offer = make_offer player opp (hd their_needed) needed_pos;
                  reverse = reverse_offer player opp (hd their_needed) needed_pos offer
              in if evaluate_trade iter ai state reverse then [offer] else []
         else [])"

text \<open>The outer loop body: one group of the table (\<open>group, positions\<close>).\<close>

definition group_offers ::
  "(int set \<Rightarrow> int list) \<Rightarrow> StrategicAI \<Rightarrow> GameState \<Rightarrow> string \<times> int list \<Rightarrow> TradeOffer list" where
  "group_offers iter ai state item =
     (let player = my_state state;
          positions = snd item;
          owned_in_group = filter (\<lambda>p. p \<in> properties player) positions;
          needed = filter (\<lambda>p. p \<notin> properties player) positions
      in if length owned_in_group = 0 \<or> length needed = 0 then []
         else concat (map (\<lambda>needed_pos.
                concat (map (\<lambda>opp.
                  if needed_pos \<in> properties opp
                  then concat (map (their_group_offers iter ai state opp needed_pos) GROUP_PROPERTIES)
                  else [])
                (opponents state)))
              needed))"

definition generate_trade_offers ::
  "(int set \<Rightarrow> int list) \<Rightarrow> StrategicAI \<Rightarrow> GameState \<Rightarrow> TradeOffer list" where
  "generate_trade_offers iter ai state = concat (map (group_offers iter ai state) GROUP_PROPERTIES)"

text \<open>
  The mirror of an offer in the words of the specification: offered and requested
  properties swapped, offered and requested cash swapped, sender and recipient swapped.
  It is compared below with the reverse offer that the source builds.
\<close>

definition mirror_offer :: "TradeOffer \<Rightarrow> TradeOffer" where
  "mirror_offer offer =
     \<lparr>from_player = to_player offer,
      to_player = from_player offer,
      properties_offered = properties_requested offer,
      properties_requested = properties_offered offer,
      cash_offered = cash_requested offer,
      cash_requested = cash_offered offer\<rparr>"

subsection \<open>Building decisions\<close>

definition should_build_house :: "StrategicAI \<Rightarrow> GameState \<Rightarrow> int \<Rightarrow> bool" where
  "should_build_house ai state position =
     (let player = my_state state
      in case position_group position of
           None \<Rightarrow> False
         | Some g \<Rightarrow>
             if \<not> truthy (Some g) \<or> g \<in> set [''railroad'', ''utility''] then False
             else if \<not> has_monopoly (properties player) (Some g) then False
             else if available_houses state \<le> 0 then False
             else let house_cost = dict_get HOUSE_COST g 100
                  in if cash player - house_cost < absolute_min_cash ai + 50 then False
                     else let houses_in_group = map (houses_get player) (GROUP_PROPERTIES_item g);
                              current_houses = houses_get player position
                          in if current_houses > min_list houses_in_group then False
                             else if current_houses \<ge> 4 then False
                             else True)"

definition priority_groups :: "string list" where
  "priority_groups =
     [''orange'', ''red'', ''darkBlue'', ''yellow'', ''green'', ''pink'', ''lightBlue'', ''brown'']"

definition get_building_priority :: "StrategicAI \<Rightarrow> GameState \<Rightarrow> int list" where
  "get_building_priority ai state =
     (let player = my_state state
      in concat (map (\<lambda>g. if \<not> has_monopoly (properties player) (Some g) then []
                           else filter (should_build_house ai state) (GROUP_PROPERTIES_item g))
                     priority_groups))"

subsection \<open>Mortgage decisions\<close>

text \<open>
  The dictionaries collected in \<open>mortgageable\<close>. \<open>group and has_monopoly(...)\<close> is \<open>None\<close>
  for a position without a group and a truth value otherwise.
\<close>

record mortgage_entry =
  entry_position :: int
  entry_value :: int
  entry_has_monopoly :: "bool option"
  entry_group_quality :: pyfloat

definition mortgage_candidate :: "PlayerState \<Rightarrow> int \<Rightarrow> mortgage_entry" where
  "mortgage_candidate player pos =
     (let grp = position_group pos;
          price = dict_get PROPERTY_PRICES pos 0;
          mortgage_value = price div 2
      in \<lparr>entry_position = pos,
          entry_value = mortgage_value,
          entry_has_monopoly =
            (if truthy grp then Some (has_monopoly (properties player) grp) else None),
          entry_group_quality =
            (case grp of
               None \<Rightarrow> 0
             | Some g \<Rightarrow> if truthy (Some g) then dict_get GROUP_QUALITY g (py_float 1) else 0)\<rparr>)"







subsection \<open>Snapshots\<close>

text \<open>
  The dataclass constructors with the defaults of the source: a player is made from an
  identifier, its cash and its properties, a game state from the acting player, the
  opponents and the player whose turn it is.
\<close>

definition PlayerState_init :: "string \<Rightarrow> int \<Rightarrow> int set \<Rightarrow> PlayerState" where
  "PlayerState_init pid c props =
     \<lparr>player_id = pid, cash = c, properties = props, board_position = 0, in_jail = False,
      mortgaged = {}, houses = Map.empty\<rparr>"

definition GameState_init :: "PlayerState \<Rightarrow> PlayerState list \<Rightarrow> string \<Rightarrow> GameState" where
  "GameState_init me opps turn =
     \<lparr>my_state = me, opponents = opps, current_turn = turn, turn_number = 0,
      available_houses = 32, available_hotels = 12\<rparr>"

text \<open>
  The snapshot of the building test of the test suite (the acting player owns the orange
  and the brown group and has cash 1000), and the same player holding only the orange
  group with four houses on each of its properties.
\<close>

definition building_test_state :: GameState where
  "building_test_state =
     GameState_init (PlayerState_init ''me'' 1000 {16, 18, 19, 1, 3})
       [PlayerState_init ''opp'' 500 {}] ''me''"

definition four_houses_player :: PlayerState where
  "four_houses_player =
     (PlayerState_init ''me'' 1000 {16, 18, 19})\<lparr>houses := [16 \<mapsto> 4, 18 \<mapsto> 4, 19 \<mapsto> 4]\<rparr>"

definition four_houses_state :: GameState where
  "four_houses_state = GameState_init four_houses_player [PlayerState_init ''opp'' 500 {}] ''me''"





text \<open>
  The snapshot and the offer of the trade test of the test suite: the opponent owns 31,
  32 and 1 and offers 1 for the acting player's 34.
\<close>

definition trade_test_state :: GameState where
  "trade_test_state =
     GameState_init (PlayerState_init ''me'' 500 {34})
       [PlayerState_init ''opp'' 500 {31, 32, 1}] ''opp''"

definition trade_test_offer :: TradeOffer where
  "trade_test_offer =
     \<lparr>from_player = ''opp'', to_player = ''me'', properties_offered = {1},
      properties_requested = {34}, cash_offered = 0, cash_requested = 0\<rparr>"



text \<open>
  The acting player owns 16, 18 and 21, the opponent 19, 23 and 24: each holds the
  property that completes a group of the other. The offer of 21 for 19 asks for the
  price difference of 20.
\<close>

definition swap_state :: GameState where
  "swap_state =
     GameState_init (PlayerState_init ''me'' 500 {16, 18, 21})
       [PlayerState_init ''opp'' 500 {19, 23, 24}] ''me''"

definition swap_offer :: TradeOffer where
  "swap_offer =
     \<lparr>from_player = ''me'', to_player = ''opp'', properties_offered = {21},
      properties_requested = {19}, cash_offered = 0, cash_requested = 20\<rparr>"

section \<open>Float rounding\<close>

lemma pow2_powi: "pow2 k = 2 powi k"
  by (simp add: pow2_def power_int_def inverse_eq_divide power_one_over)

lemma pow2_pos: "0 < pow2 k"
  by (simp add: pow2_powi)

lemma pow2_add: "pow2 (a + b) = pow2 a * pow2 b"
  by (simp add: pow2_powi power_int_add)

lemma pow2_less_iff: "pow2 a < pow2 b \<longleftrightarrow> a < b"
proof
  assume "pow2 a < pow2 b"
  show "a < b"
  proof (rule ccontr)
    assume "\<not> a < b"
    then have "b \<le> a" by simp
    then have "pow2 b \<le> pow2 a"
      unfolding pow2_powi by (intro power_int_increasing) auto
    with \<open>pow2 a < pow2 b\<close> show False by simp
  qed
next
  assume "a < b"
  then show "pow2 a < pow2 b"
    unfolding pow2_powi by (intro power_int_strict_increasing) auto
qed

lemma pow2_le_iff: "pow2 a \<le> pow2 b \<longleftrightarrow> a \<le> b"
  using pow2_less_iff [of b a] by (auto simp: not_less [symmetric])

lemma pow2_nat: "pow2 (int n) = 2 ^ n"
  by (simp add: pow2_def)

lemma pow2_minus: "pow2 (- k) = 1 / pow2 k"
  by (simp add: pow2_powi power_int_minus inverse_eq_divide)

lemma flog2_bounds:
  assumes "0 < x"
  shows "pow2 (flog2 x) \<le> x \<and> x < pow2 (flog2 x + 1)"
proof (cases "1 \<le> x")
  case True
  define n where "n = \<lfloor>x\<rfloor>"
  have n: "0 < n" using True by (simp add: n_def)
  have bl: "1 \<le> bitlen n" using n by (simp add: bitlen_alt_def)
  from bitlen_bounds [OF n]
  have b: "2 ^ nat (bitlen n - 1) \<le> n" "n < 2 ^ nat (bitlen n)" by auto
  have "pow2 (bitlen n - 1) = of_int (2 ^ nat (bitlen n - 1))"
    using bl by (simp add: pow2_def)
  also have "\<dots> \<le> of_int n" using b(1) by (simp only: of_int_le_iff)
  also have "\<dots> \<le> x" by (simp add: n_def)
  finally have lo: "pow2 (bitlen n - 1) \<le> x" .
  have "n + 1 \<le> 2 ^ nat (bitlen n)" using b(2) by simp
  then have "of_int (n + 1) \<le> (of_int (2 ^ nat (bitlen n)) :: rat)"
    by (simp only: of_int_le_iff)
  moreover have "x < of_int (n + 1)" using floor_correct [of x] by (simp add: n_def)
  ultimately have "x < of_int (2 ^ nat (bitlen n))" by simp
  also have "\<dots> = pow2 (bitlen n)" using bl by (simp add: pow2_def)
  finally have hi: "x < pow2 (bitlen n)" .
  show ?thesis using lo hi True by (simp add: flog2_def n_def)
next
  case False
  define y where "y = 1 / x"
  define c where "c = \<lceil>y\<rceil>"
  have y: "1 < y" using False assms by (simp add: y_def)
  have c2: "2 \<le> c" using y by (simp add: c_def le_ceiling_iff)
  then have c1: "0 < c - 1" by simp
  define k where "k = bitlen (c - 1)"
  have k1: "1 \<le> k" using c1 by (simp add: k_def bitlen_alt_def)
  from bitlen_bounds [OF c1]
  have b: "2 ^ nat (k - 1) \<le> c - 1" "c - 1 < 2 ^ nat k" by (auto simp: k_def)
  have "c \<le> 2 ^ nat k" using b(2) by simp
  then have "(of_int c :: rat) \<le> 2 ^ nat k" by simp
  moreover have "y \<le> of_int c" by (simp add: c_def)
  ultimately have "y \<le> 2 ^ nat k" by (rule order_trans [rotated])
  then have "y \<le> pow2 k" using k1 by (simp add: pow2_def)
  then have "1 / x \<le> pow2 k" by (simp add: y_def)
  then have "1 / pow2 k \<le> x" using assms pow2_pos [of k] by (simp add: field_simps)
  then have lo: "pow2 (- k) \<le> x" by (simp add: pow2_minus)
  have "of_int (c - 1) < y" unfolding c_def using ceiling_correct [of y] by simp
  moreover have "(2 ^ nat (k - 1) :: rat) \<le> of_int (c - 1)"
    using b(1) by (simp only: numeral_power_le_of_int_cancel_iff)
  ultimately have "2 ^ nat (k - 1) < y" by (rule le_less_trans [rotated])
  then have "pow2 (k - 1) < 1 / x" using k1 by (simp add: pow2_def y_def)
  then have "x < 1 / pow2 (k - 1)" using assms pow2_pos [of "k - 1"] by (simp add: field_simps)
  then have "x < pow2 (- (k - 1))" by (simp only: pow2_minus)
  then have hi: "x < pow2 (- k + 1)" by simp
  show ?thesis using lo hi False by (simp add: flog2_def y_def c_def k_def)
qed

lemma flog2_unique:
  assumes "pow2 e \<le> x" "x < pow2 (e + 1)"
  shows "flog2 x = e"
proof -
  have x: "0 < x" using assms(1) pow2_pos [of e] by simp
  from flog2_bounds [OF x] have b: "pow2 (flog2 x) \<le> x" "x < pow2 (flog2 x + 1)" by auto
  have "pow2 e < pow2 (flog2 x + 1)" using assms(1) b(2) by simp
  then have "e < flog2 x + 1" by (simp add: pow2_less_iff)
  moreover have "pow2 (flog2 x) < pow2 (e + 1)" using assms(2) b(1) by simp
  then have "flog2 x < e + 1" by (simp add: pow2_less_iff)
  ultimately show ?thesis by simp
qed

lemma flog2_mono:
  assumes "0 < x" "x \<le> y"
  shows "flog2 x \<le> flog2 y"
proof -
  have y: "0 < y" using assms by simp
  from flog2_bounds [OF assms(1)] flog2_bounds [OF y]
  have "pow2 (flog2 x) < pow2 (flog2 y + 1)" using assms(2) by simp
  then show ?thesis by (simp add: pow2_less_iff)
qed


lemma pow2_52: "pow2 52 = 2 ^ 52" and pow2_53: "pow2 53 = 2 ^ 53"
  by (simp_all add: pow2_def)

lemma round_half_even_of_int: "round_half_even (of_int n) = n"
  by (simp add: round_half_even_def)

lemma round_half_even_bounds: "\<lfloor>y\<rfloor> \<le> round_half_even y \<and> round_half_even y \<le> \<lfloor>y\<rfloor> + 1"
  by (simp add: round_half_even_def Let_def)

lemma round_half_even_mono:
  assumes "a \<le> b"
  shows "round_half_even a \<le> round_half_even b"
proof (cases "\<lfloor>a\<rfloor> = \<lfloor>b\<rfloor>")
  case True
  then have "a - of_int \<lfloor>a\<rfloor> \<le> b - of_int \<lfloor>b\<rfloor>" using assms by simp
  then show ?thesis using True by (auto simp: round_half_even_def Let_def)
next
  case False
  then have "\<lfloor>a\<rfloor> < \<lfloor>b\<rfloor>" using floor_mono [OF assms] by simp
  then have "\<lfloor>a\<rfloor> + 1 \<le> \<lfloor>b\<rfloor>" by simp
  then show ?thesis
    using round_half_even_bounds [of a] round_half_even_bounds [of b] by linarith
qed

lemma rnd_0: "rnd 0 = 0"
  by (simp add: rnd_def)

lemma rnd_pos_eq:
  "0 < x \<Longrightarrow> rnd x = of_int (round_half_even (x * pow2 (52 - flog2 x))) * pow2 (flog2 x - 52)"
  by (simp add: rnd_def Let_def)

lemma rnd_minus: "rnd (- x) = - rnd x"
  by (simp add: rnd_def Let_def sgn_minus)

lemma scaled_bounds:
  assumes "0 < x"
  shows "2 ^ 52 \<le> x * pow2 (52 - flog2 x) \<and> x * pow2 (52 - flog2 x) < 2 ^ 53"
proof -
  let ?e = "flog2 x"
  from flog2_bounds [OF assms] have b: "pow2 ?e \<le> x" "x < pow2 (?e + 1)" by auto
  have p: "0 < pow2 (52 - ?e)" by (rule pow2_pos)
  have "pow2 ?e * pow2 (52 - ?e) \<le> x * pow2 (52 - ?e)"
    using b(1) p by (intro mult_right_mono) auto
  moreover have "pow2 ?e * pow2 (52 - ?e) = 2 ^ 52"
    using pow2_add [of ?e "52 - ?e"] by (simp add: pow2_52)
  moreover have "x * pow2 (52 - ?e) < pow2 (?e + 1) * pow2 (52 - ?e)"
    using b(2) p by (intro mult_strict_right_mono) auto
  moreover have "pow2 (?e + 1) * pow2 (52 - ?e) = 2 ^ 53"
    using pow2_add [of "?e + 1" "52 - ?e"] by (simp add: pow2_53)
  ultimately show ?thesis by simp
qed

lemma mantissa_bounds:
  assumes "0 < x"
  shows "2 ^ 52 \<le> round_half_even (x * pow2 (52 - flog2 x))
       \<and> round_half_even (x * pow2 (52 - flog2 x)) \<le> 2 ^ 53"
proof -
  let ?s = "x * pow2 (52 - flog2 x)"
  from scaled_bounds [OF assms] have s: "2 ^ 52 \<le> ?s" "?s < 2 ^ 53" by auto
  have "round_half_even (of_int (2 ^ 52)) \<le> round_half_even ?s"
    using s(1) by (intro round_half_even_mono) simp
  then have lo: "2 ^ 52 \<le> round_half_even ?s" by (simp only: round_half_even_of_int)
  have "round_half_even ?s \<le> round_half_even (of_int (2 ^ 53))"
    using s(2) by (intro round_half_even_mono) simp
  then have hi: "round_half_even ?s \<le> 2 ^ 53" by (simp only: round_half_even_of_int)
  show ?thesis using lo hi by simp
qed

lemma rnd_bounds:
  assumes "0 < x"
  shows "pow2 (flog2 x) \<le> rnd x \<and> rnd x \<le> pow2 (flog2 x + 1)"
proof -
  let ?e = "flog2 x"
  let ?m = "round_half_even (x * pow2 (52 - ?e))"
  from mantissa_bounds [OF assms] have m: "2 ^ 52 \<le> ?m" "?m \<le> 2 ^ 53" by auto
  have p: "0 < pow2 (?e - 52)" by (rule pow2_pos)
  have "(2 ^ 52 :: rat) \<le> of_int ?m" using m(1) by simp
  then have "2 ^ 52 * pow2 (?e - 52) \<le> of_int ?m * pow2 (?e - 52)"
    using p by (intro mult_right_mono) auto
  moreover have "2 ^ 52 * pow2 (?e - 52) = pow2 ?e"
    using pow2_add [of 52 "?e - 52"] by (simp add: pow2_52)
  moreover have "(of_int ?m :: rat) \<le> 2 ^ 53" using m(2) by simp
  then have "of_int ?m * pow2 (?e - 52) \<le> 2 ^ 53 * pow2 (?e - 52)"
    using p by (intro mult_right_mono) auto
  moreover have "2 ^ 53 * pow2 (?e - 52) = pow2 (?e + 1)"
    using pow2_add [of 53 "?e - 52"] by (simp add: pow2_53 add.commute)
  ultimately show ?thesis by (simp add: rnd_pos_eq [OF assms])
qed

lemma rnd_pos: "0 < x \<Longrightarrow> 0 < rnd x"
  using rnd_bounds [of x] pow2_pos [of "flog2 x"] by simp

lemma rnd_mono_pos:
  assumes "0 < x" "x \<le> y"
  shows "rnd x \<le> rnd y"
proof -
  have y: "0 < y" using assms by simp
  show ?thesis
  proof (cases "flog2 x = flog2 y")
    case True
    have "x * pow2 (52 - flog2 y) \<le> y * pow2 (52 - flog2 y)"
      using assms(2) pow2_pos [of "52 - flog2 y"] by (intro mult_right_mono) auto
    then have "round_half_even (x * pow2 (52 - flog2 y)) \<le> round_half_even (y * pow2 (52 - flog2 y))"
      by (rule round_half_even_mono)
    then have "(of_int (round_half_even (x * pow2 (52 - flog2 y))) :: rat)
                 \<le> of_int (round_half_even (y * pow2 (52 - flog2 y)))"
      by (simp only: of_int_le_iff)
    then have "of_int (round_half_even (x * pow2 (52 - flog2 y))) * pow2 (flog2 y - 52)
                 \<le> of_int (round_half_even (y * pow2 (52 - flog2 y))) * pow2 (flog2 y - 52)"
      using pow2_pos [of "flog2 y - 52"] by (intro mult_right_mono) auto
    then show ?thesis by (simp add: rnd_pos_eq [OF assms(1)] rnd_pos_eq [OF y] True)
  next
    case False
    then have "flog2 x + 1 \<le> flog2 y" using flog2_mono [OF assms] by simp
    then have "pow2 (flog2 x + 1) \<le> pow2 (flog2 y)" by (simp only: pow2_le_iff)
    then show ?thesis using rnd_bounds [OF assms(1)] rnd_bounds [OF y] by linarith
  qed
qed

lemma rnd_mono:
  assumes "x \<le> y"
  shows "rnd x \<le> rnd y"
proof -
  consider "0 < x" | "x = 0" | "x < 0"  by linarith
  then show ?thesis
  proof cases
    case 1
    then show ?thesis using assms by (rule rnd_mono_pos)
  next
    case 2
    then show ?thesis using assms rnd_pos [of y] by (cases "y = 0") (auto simp: rnd_0)
  next
    case 3
    consider "0 < y" | "y = 0" | "y < 0" by linarith
    then show ?thesis
    proof cases
      case 1
      then show ?thesis using rnd_pos [of y] rnd_pos [of "- x"] 3 by (simp add: rnd_minus)
    next
      case 2
      then show ?thesis using rnd_pos [of "- x"] 3 by (simp add: rnd_minus rnd_0)
    next
      case 3
      then have "rnd (- y) \<le> rnd (- x)" using assms by (intro rnd_mono_pos) auto
      then show ?thesis by (simp add: rnd_minus)
    qed
  qed
qed

lemma rnd_normal:
  assumes "2 ^ 52 \<le> m" "m < 2 ^ 53"
  shows "rnd (of_int m * pow2 j) = of_int m * pow2 j"
proof -
  let ?x = "of_int m * pow2 j :: rat"
  have m0: "(0::rat) < of_int m" using assms(1) by simp
  have x: "0 < ?x" using m0 pow2_pos [of j] by simp
  have "(2 ^ 52 :: rat) \<le> of_int m" using assms(1) by simp
  then have "2 ^ 52 * pow2 j \<le> ?x" using pow2_pos [of j] by (intro mult_right_mono) auto
  moreover have "2 ^ 52 * pow2 j = pow2 (j + 52)"
    using pow2_add [of 52 j] by (simp add: pow2_52 add.commute)
  moreover have "(of_int m :: rat) < 2 ^ 53" using assms(2) by simp
  then have "?x < 2 ^ 53 * pow2 j" using pow2_pos [of j] by (intro mult_strict_right_mono) auto
  moreover have "2 ^ 53 * pow2 j = pow2 (j + 52 + 1)"
    using pow2_add [of 53 j] by (simp add: pow2_53 add.commute)
  ultimately have e: "flog2 ?x = j + 52" by (intro flog2_unique) simp_all
  have "pow2 j * pow2 (- j) = 1" using pow2_add [of j "- j"] by (simp add: pow2_def)
  then have s: "?x * pow2 (52 - flog2 ?x) = of_int m" by (simp add: e)
  show ?thesis by (simp only: rnd_pos_eq [OF x] s round_half_even_of_int) (simp add: e)
qed

lemma rnd_idem_pos:
  assumes "0 < x"
  shows "rnd (rnd x) = rnd x"
proof -
  let ?e = "flog2 x"
  let ?m = "round_half_even (x * pow2 (52 - ?e))"
  from mantissa_bounds [OF assms] have m: "2 ^ 52 \<le> ?m" "?m \<le> 2 ^ 53" by auto
  have r: "rnd x = of_int ?m * pow2 (?e - 52)" by (rule rnd_pos_eq [OF assms])
  show ?thesis
  proof (cases "?m < 2 ^ 53")
    case True
    show ?thesis unfolding r using m(1) True by (rule rnd_normal)
  next
    case False
    then have "?m = 2 ^ 53" using m(2) by simp
    then have "rnd x = 2 ^ 53 * pow2 (?e - 52)" using r by simp
    also have "\<dots> = pow2 (?e + 1)"
      using pow2_add [of 53 "?e - 52"] by (simp add: pow2_53 add.commute)
    also have "\<dots> = of_int (2 ^ 52) * pow2 (?e - 51)"
      using pow2_add [of 52 "?e - 51"] by (simp add: pow2_52 add.commute)
    finally have "rnd x = of_int (2 ^ 52) * pow2 (?e - 51)" .
    moreover have "rnd (of_int (2 ^ 52) * pow2 (?e - 51)) = of_int (2 ^ 52) * pow2 (?e - 51)"
      by (rule rnd_normal) simp_all
    ultimately show ?thesis by simp
  qed
qed

lemma rnd_idem: "rnd (rnd x) = rnd x"
proof -
  consider "0 < x" | "x = 0" | "x < 0" by linarith
  then show ?thesis
  proof cases
    case 1 then show ?thesis by (rule rnd_idem_pos)
  next
    case 2 then show ?thesis by (simp add: rnd_0)
  next
    case 3
    then have "rnd (rnd (- x)) = rnd (- x)" by (intro rnd_idem_pos) simp
    then show ?thesis by (simp add: rnd_minus)
  qed
qed

section \<open>The tables\<close>

lemma position_group_cases:
  "position_group p = Some g \<Longrightarrow> (p, g) \<in> set POSITION_TO_GROUP"
  unfolding position_group_def by (rule map_of_SomeD)

lemma position_group_truthy: "position_group p = Some g \<Longrightarrow> truthy (Some g)"
  by (drule position_group_cases) (auto simp: POSITION_TO_GROUP_def truthy_def)


lemma priority_groups_are_keys: "set priority_groups \<subseteq> fst ` set GROUP_PROPERTIES"
  by (simp add: priority_groups_def GROUP_PROPERTIES_def)

lemma get_group_properties_unknown:
  "grp = None \<or> (\<exists>g. grp = Some g \<and> map_of GROUP_PROPERTIES g = None)
     \<Longrightarrow> get_group_properties grp = []"
  by (auto simp: get_group_properties_def dict_get_def)

section \<open>Purchase decision\<close>

lemma buy_blocking_loop_iff:
  "buy_blocking_loop ai state position g opps =
     (\<exists>opp\<in>set opps. has_monopoly (properties opp \<union> {position}) (Some g)
        \<and> (smart_blocking ai \<longrightarrow> other_blockers state opp position (GROUP_PROPERTIES_item g) = 0))"
  by (induction opps) auto

lemma should_buy_property_eq:
  "should_buy_property ai state position price =
     (if cash (my_state state) - price < absolute_min_cash ai then False
      else if position_group position = None then True
      else if has_monopoly (properties (my_state state) \<union> {position}) (position_group position)
           then True
      else if (\<exists>g opp. position_group position = Some g \<and> opp \<in> set (opponents state)
                 \<and> has_monopoly (properties opp \<union> {position}) (Some g)
                 \<and> (smart_blocking ai \<longrightarrow>
                      other_blockers state opp position (GROUP_PROPERTIES_item g) = 0))
           then True
      else cash (my_state state) - price \<ge> absolute_min_cash ai + 100)"
  by (auto simp: should_buy_property_def Let_def buy_blocking_loop_iff position_group_truthy
           split: option.splits)

lemma other_blockers_my_state:
  "other_blockers (state\<lparr>my_state := p\<rparr>) opp position members =
     other_blockers state opp position members"
  by (simp add: other_blockers_def)




text \<open>
  Claim C8. \<open>should_buy_property\<close> is monotonic in the cash of the acting player: when it
  accepts at some cash level, it accepts at every greater cash level, everything else
  unchanged.
\<close>

theorem should_buy_property_mono_cash:
  assumes "should_buy_property ai state position price"
    and "cash (my_state state) < c"
  shows "should_buy_property ai (state\<lparr>my_state := (my_state state)\<lparr>cash := c\<rparr>\<rparr>) position price"
  using assms by (auto simp: should_buy_property_eq other_blockers_my_state split: if_splits)

theorem should_buy_property_mono_cash_witness:
  "should_buy_property StrategicAI_init
     (GameState_init (PlayerState_init ''me'' 400 {}) [] ''me'') 24 200
   \<and> (400::int) < 1000
   \<and> should_buy_property StrategicAI_init
       (GameState_init (PlayerState_init ''me'' 1000 {}) [] ''me'') 24 200"
proof -
  let ?st = "GameState_init (PlayerState_init ''me'' 400 {}) [] ''me''"
  have a: "should_buy_property StrategicAI_init ?st 24 200"
    by (simp add: should_buy_property_eq GameState_init_def PlayerState_init_def
          StrategicAI_init_def)
  have c: "cash (my_state ?st) < 1000"
    by (simp add: GameState_init_def PlayerState_init_def)
  show ?thesis
    using a should_buy_property_mono_cash [OF a c]
    by (simp add: GameState_init_def PlayerState_init_def)
qed

section \<open>Groups outside the table\<close>

text \<open>
  Claim C10. For a group that is not a key of \<open>GROUP_PROPERTIES\<close>, the no-group value
  \<open>None\<close> included, \<open>has_monopoly\<close> is true of every set of positions: the list of
  members is empty and the test over it holds vacuously. So in the blocking check of
  \<open>get_auction_bid\<close>, at a position without a group, the first opponent counts as
  completing a monopoly, no other opponent counts as a blocker, and the bid is raised.
\<close>

theorem has_monopoly_unknown_group:
  assumes "grp = None \<or> (\<exists>g. grp = Some g \<and> map_of GROUP_PROPERTIES g = None)"
  shows "has_monopoly S grp
    \<and> (position_group position = None \<longrightarrow>
         has_monopoly (properties opp \<union> {position}) (position_group position)
         \<and> auction_blocking_loop ai state position (position_group position) (opp # rest) max_bid
             = py_int (fmul (float_of_int max_bid) (py_float (13 / 10))))"
proof -
  have "has_monopoly T grp" for T
    using get_group_properties_unknown [OF assms] by (simp add: has_monopoly_def)
  moreover have "has_monopoly T None" for T
    by (simp add: has_monopoly_def get_group_properties_def)
  moreover have "other_blockers state opp position (get_group_properties None) = 0"
    by (simp add: other_blockers_def get_group_properties_def)
  ultimately show ?thesis by simp
qed

theorem has_monopoly_unknown_group_witness:
  "map_of GROUP_PROPERTIES ''purple'' = None
   \<and> has_monopoly {} (Some ''purple'') \<and> has_monopoly {1, 3} None
   \<and> position_group 2 = None
   \<and> has_monopoly (properties (PlayerState_init ''opp'' 500 {}) \<union> {2}) (position_group 2)"
proof -
  have k: "map_of GROUP_PROPERTIES ''purple'' = None"
    by (simp add: GROUP_PROPERTIES_def)
  have p: "position_group 2 = None"
    by (simp add: position_group_def POSITION_TO_GROUP_def)
  show ?thesis
    using k p
      has_monopoly_unknown_group [of "Some ''purple''" "{}" 2 "PlayerState_init ''opp'' 500 {}"]
      has_monopoly_unknown_group [of None "{1, 3}" 2 "PlayerState_init ''opp'' 500 {}"]
    by simp
qed

section \<open>Monopoly quality\<close>

lemma fadd_commute: "fadd a b = fadd b a"
  by (simp add: fadd_def add.commute)

lemma fadd_zero_py_float: "fadd 0 (py_float q) = py_float q"
  by (simp add: fadd_def py_float_def rnd_idem)

lemma members_group_all:
  "list_all (\<lambda>(g, ps). list_all (\<lambda>p. position_group p = Some g) ps) GROUP_PROPERTIES"
  by (simp add: GROUP_PROPERTIES_def position_group_def POSITION_TO_GROUP_def)

lemma members_group:
  "(g, ps) \<in> set GROUP_PROPERTIES \<Longrightarrow> p \<in> set ps \<Longrightarrow> position_group p = Some g"
  using members_group_all by (fastforce simp: list_all_iff)

lemma groups_nonempty: "(g, ps) \<in> set GROUP_PROPERTIES \<Longrightarrow> ps \<noteq> []"
  by (auto simp: GROUP_PROPERTIES_def)

lemma group_keys_distinct: "distinct (map fst GROUP_PROPERTIES)"
  by (simp add: GROUP_PROPERTIES_def)

lemma group_members_unique:
  assumes "(g, ps) \<in> set GROUP_PROPERTIES" "(g, ps') \<in> set GROUP_PROPERTIES"
  shows "ps = ps'"
  using map_of_is_SomeI [OF group_keys_distinct assms(1)]
        map_of_is_SomeI [OF group_keys_distinct assms(2)] by simp

lemma group_quality_values: "list_all (\<lambda>(g, q). rnd q = q) GROUP_QUALITY"
  by (simp add: GROUP_QUALITY_def py_float_def rnd_idem)

lemma rnd_group_quality:
  "rnd (dict_get GROUP_QUALITY g (py_float 1)) = dict_get GROUP_QUALITY g (py_float 1)"
proof (cases "map_of GROUP_QUALITY g")
  case None
  then show ?thesis by (simp add: dict_get_def py_float_def rnd_idem)
next
  case (Some q)
  then have "(g, q) \<in> set GROUP_QUALITY" by (rule map_of_SomeD)
  then have "rnd q = q" using group_quality_values by (fastforce simp: list_all_iff)
  then show ?thesis using Some by (simp add: dict_get_def)
qed

lemma fadd_zero_group_quality:
  "fadd 0 (dict_get GROUP_QUALITY g (py_float 1)) = dict_get GROUP_QUALITY g (py_float 1)"
  by (simp add: fadd_def rnd_group_quality)

lemma group_subset_one:
  assumes "(g, ps) \<in> set GROUP_PROPERTIES" "(g1, ps1) \<in> set GROUP_PROPERTIES"
  shows "list_all (\<lambda>pos. pos \<in> set ps1) ps \<longleftrightarrow> g = g1"
proof
  assume a: "list_all (\<lambda>pos. pos \<in> set ps1) ps"
  from groups_nonempty [OF assms(1)] obtain p where p: "p \<in> set ps" by (cases ps) auto
  then have "p \<in> set ps1" using a by (simp add: list_all_iff)
  then show "g = g1" using members_group [OF assms(1) p] members_group [OF assms(2)] by simp
next
  assume "g = g1"
  then have "ps = ps1" using assms group_members_unique by blast
  then show "list_all (\<lambda>pos. pos \<in> set ps1) ps" by (simp add: list_all_iff)
qed

lemma group_subset_two:
  assumes "(g, ps) \<in> set GROUP_PROPERTIES" "(g1, ps1) \<in> set GROUP_PROPERTIES"
    "(g2, ps2) \<in> set GROUP_PROPERTIES"
  shows "list_all (\<lambda>pos. pos \<in> set ps1 \<union> set ps2) ps \<longleftrightarrow> g = g1 \<or> g = g2"
proof
  assume a: "list_all (\<lambda>pos. pos \<in> set ps1 \<union> set ps2) ps"
  from groups_nonempty [OF assms(1)] obtain p where p: "p \<in> set ps" by (cases ps) auto
  then have "p \<in> set ps1 \<or> p \<in> set ps2" using a by (simp add: list_all_iff)
  then show "g = g1 \<or> g = g2"
    using members_group [OF assms(1) p] members_group [OF assms(2)] members_group [OF assms(3)]
    by auto
next
  assume "g = g1 \<or> g = g2"
  then have "ps = ps1 \<or> ps = ps2" using assms group_members_unique by blast
  then show "list_all (\<lambda>pos. pos \<in> set ps1 \<union> set ps2) ps" by (auto simp: list_all_iff)
qed

lemma foldl_quality_none:
  assumes "\<And>g ps. (g, ps) \<in> set xs \<Longrightarrow> \<not> list_all (\<lambda>pos. pos \<in> S) ps"
  shows "foldl (quality_step S) a xs = a"
  using assms
proof (induction xs arbitrary: a)
  case Nil
  then show ?case by simp
next
  case (Cons x xs)
  obtain g ps where x: "x = (g, ps)" by (cases x)
  have "quality_step S a x = a"
    using Cons.prems [of g ps] by (simp add: x quality_step_def)
  moreover have "foldl (quality_step S) a xs = a"
    using Cons.prems by (intro Cons.IH) auto
  ultimately show ?case by simp
qed

lemma foldl_quality_one:
  assumes "distinct (map fst xs)" "(g1, ps1) \<in> set xs"
    and "\<And>g ps. (g, ps) \<in> set xs \<Longrightarrow> list_all (\<lambda>pos. pos \<in> S) ps \<longleftrightarrow> g = g1"
  shows "foldl (quality_step S) a xs = fadd a (dict_get GROUP_QUALITY g1 (py_float 1))"
  using assms
proof (induction xs arbitrary: a)
  case Nil
  then show ?case by simp
next
  case (Cons x xs)
  obtain g ps where x: "x = (g, ps)" by (cases x)
  show ?case
  proof (cases "g = g1")
    case True
    have step: "quality_step S a x = fadd a (dict_get GROUP_QUALITY g1 (py_float 1))"
      using Cons.prems(3) [of g ps] True by (simp add: x quality_step_def)
    have "\<not> list_all (\<lambda>pos. pos \<in> S) ps'" if "(g', ps') \<in> set xs" for g' ps'
    proof -
      have "g' \<noteq> g1" using that Cons.prems(1) True by (force simp: x)
      then show ?thesis using Cons.prems(3) [of g' ps'] that by simp
    qed
    then have "foldl (quality_step S) (quality_step S a x) xs = quality_step S a x"
      by (rule foldl_quality_none)
    then show ?thesis by (simp add: step)
  next
    case False
    have step: "quality_step S a x = a"
      using Cons.prems(3) [of g ps] False by (simp add: x quality_step_def)
    have "(g1, ps1) \<in> set xs" using Cons.prems(2) False by (simp add: x)
    then have "foldl (quality_step S) a xs = fadd a (dict_get GROUP_QUALITY g1 (py_float 1))"
      using Cons.prems(1,3) by (intro Cons.IH) auto
    then show ?thesis by (simp add: step)
  qed
qed

lemma foldl_quality_two:
  assumes "distinct (map fst xs)" "(g1, ps1) \<in> set xs" "(g2, ps2) \<in> set xs" "g1 \<noteq> g2"
    and "\<And>g ps. (g, ps) \<in> set xs \<Longrightarrow> list_all (\<lambda>pos. pos \<in> S) ps \<longleftrightarrow> g = g1 \<or> g = g2"
  shows "foldl (quality_step S) a xs
           = fadd (fadd a (dict_get GROUP_QUALITY g1 (py_float 1))) (dict_get GROUP_QUALITY g2 (py_float 1))
       \<or> foldl (quality_step S) a xs
           = fadd (fadd a (dict_get GROUP_QUALITY g2 (py_float 1))) (dict_get GROUP_QUALITY g1 (py_float 1))"
  using assms
proof (induction xs arbitrary: a)
  case Nil
  then show ?case by simp
next
  case (Cons x xs)
  obtain g ps where x: "x = (g, ps)" by (cases x)
  have rest_keys: "g' \<noteq> g" if "(g', ps') \<in> set xs" for g' ps'
    using that Cons.prems(1) by (force simp: x)
  consider "g = g1" | "g = g2" | "g \<noteq> g1" "g \<noteq> g2" by blast
  then show ?case
  proof cases
    case 1
    have step: "quality_step S a x = fadd a (dict_get GROUP_QUALITY g1 (py_float 1))"
      using Cons.prems(5) [of g ps] 1 by (simp add: x quality_step_def)
    have in2: "(g2, ps2) \<in> set xs" using Cons.prems(3,4) 1 by (auto simp: x)
    have "list_all (\<lambda>pos. pos \<in> S) ps' \<longleftrightarrow> g' = g2" if "(g', ps') \<in> set xs" for g' ps'
      using Cons.prems(5) [of g' ps'] rest_keys [OF that] that 1 by auto
    then have "foldl (quality_step S) (quality_step S a x) xs
                 = fadd (quality_step S a x) (dict_get GROUP_QUALITY g2 (py_float 1))"
      using Cons.prems(1) in2 by (intro foldl_quality_one [where ?ps1.0 = ps2]) auto
    then show ?thesis by (simp add: step)
  next
    case 2
    have step: "quality_step S a x = fadd a (dict_get GROUP_QUALITY g2 (py_float 1))"
      using Cons.prems(5) [of g ps] 2 by (simp add: x quality_step_def)
    have in1: "(g1, ps1) \<in> set xs" using Cons.prems(2,4) 2 by (auto simp: x)
    have "list_all (\<lambda>pos. pos \<in> S) ps' \<longleftrightarrow> g' = g1" if "(g', ps') \<in> set xs" for g' ps'
      using Cons.prems(5) [of g' ps'] rest_keys [OF that] that 2 by auto
    then have "foldl (quality_step S) (quality_step S a x) xs
                 = fadd (quality_step S a x) (dict_get GROUP_QUALITY g1 (py_float 1))"
      using Cons.prems(1) in1 by (intro foldl_quality_one [where ?ps1.0 = ps1]) auto
    then show ?thesis by (simp add: step)
  next
    case 3
    have step: "quality_step S a x = a"
      using Cons.prems(5) [of g ps] 3 by (simp add: x quality_step_def)
    have "(g1, ps1) \<in> set xs" "(g2, ps2) \<in> set xs" using Cons.prems(2,3) 3 by (auto simp: x)
    then have "foldl (quality_step S) a xs
           = fadd (fadd a (dict_get GROUP_QUALITY g1 (py_float 1))) (dict_get GROUP_QUALITY g2 (py_float 1))
       \<or> foldl (quality_step S) a xs
           = fadd (fadd a (dict_get GROUP_QUALITY g2 (py_float 1))) (dict_get GROUP_QUALITY g1 (py_float 1))"
      using Cons.prems(1,4,5) by (intro Cons.IH) auto
    then show ?thesis by (simp add: step)
  qed
qed

lemma quality_of_group:
  assumes "(g1, ps1) \<in> set GROUP_PROPERTIES"
  shows "get_monopoly_quality (set ps1) = dict_get GROUP_QUALITY g1 (py_float 1)"
proof -
  have "foldl (quality_step (set ps1)) 0 GROUP_PROPERTIES
          = fadd 0 (dict_get GROUP_QUALITY g1 (py_float 1))"
    using group_keys_distinct assms
    by (rule foldl_quality_one) (rule group_subset_one [OF _ assms])
  then show ?thesis by (simp add: get_monopoly_quality_def fadd_zero_group_quality)
qed

lemma quality_union_of_groups:
  assumes "(g1, ps1) \<in> set GROUP_PROPERTIES" "(g2, ps2) \<in> set GROUP_PROPERTIES" "g1 \<noteq> g2"
  shows "get_monopoly_quality (set ps1 \<union> set ps2)
           = fadd (get_monopoly_quality (set ps1)) (get_monopoly_quality (set ps2))"
proof -
  let ?q1 = "dict_get GROUP_QUALITY g1 (py_float 1)"
  let ?q2 = "dict_get GROUP_QUALITY g2 (py_float 1)"
  have "foldl (quality_step (set ps1 \<union> set ps2)) 0 GROUP_PROPERTIES = fadd (fadd 0 ?q1) ?q2
      \<or> foldl (quality_step (set ps1 \<union> set ps2)) 0 GROUP_PROPERTIES = fadd (fadd 0 ?q2) ?q1"
    using group_keys_distinct assms
    by (rule foldl_quality_two) (rule group_subset_two [OF _ assms(1,2)])
  then have "get_monopoly_quality (set ps1 \<union> set ps2) = fadd ?q1 ?q2"
    by (auto simp: get_monopoly_quality_def fadd_zero_group_quality fadd_commute)
  then show ?thesis by (simp add: quality_of_group [OF assms(1)] quality_of_group [OF assms(2)])
qed

lemma groups_disjoint:
  assumes "(g1, ps1) \<in> set GROUP_PROPERTIES" "(g2, ps2) \<in> set GROUP_PROPERTIES" "g1 \<noteq> g2"
  shows "set ps1 \<inter> set ps2 = {}"
proof (rule ccontr)
  assume "set ps1 \<inter> set ps2 \<noteq> {}"
  then obtain p where "p \<in> set ps1" "p \<in> set ps2" by auto
  then have "position_group p = Some g1" "position_group p = Some g2"
    using assms members_group by blast+
  then show False using assms(3) by simp
qed

lemma quality_partial_group:
  assumes "(g, ps) \<in> set GROUP_PROPERTIES" "\<not> set ps \<subseteq> S"
  shows "get_monopoly_quality S = get_monopoly_quality (S - set ps)"
proof -
  have "quality_step S q item = quality_step (S - set ps) q item"
    if "item \<in> set GROUP_PROPERTIES" for q item
  proof -
    obtain g' ps' where item: "item = (g', ps')" by (cases item)
    show ?thesis
    proof (cases "g' = g")
      case True
      then have eq: "ps' = ps" using that assms(1) group_members_unique by (simp add: item)
      from groups_nonempty [OF assms(1)] obtain p where "p \<in> set ps" by (cases ps) auto
      then have "\<not> set ps \<subseteq> S - set ps" by auto
      then show ?thesis using assms(2) by (auto simp: item eq quality_step_def list_all_iff)
    next
      case False
      then have "set ps' \<inter> set ps = {}"
        using groups_disjoint [of g' ps' g ps] that assms(1) by (simp add: item)
      then have "(\<forall>pos\<in>set ps'. pos \<in> S) \<longleftrightarrow> (\<forall>pos\<in>set ps'. pos \<in> S - set ps)" by auto
      then show ?thesis by (simp add: item quality_step_def list_all_iff)
    qed
  qed
  then show ?thesis unfolding get_monopoly_quality_def by (intro foldl_cong) auto
qed

lemma quality_brown: "get_monopoly_quality {1, 3} = py_float (85 / 100)"
proof -
  have "(''brown'', [1, 3]) \<in> set GROUP_PROPERTIES" by (simp add: GROUP_PROPERTIES_def)
  from quality_of_group [OF this] show ?thesis
    by (simp add: dict_get_def GROUP_QUALITY_def)
qed

lemma quality_green: "get_monopoly_quality {31, 32, 34} = py_float (130 / 100)"
proof -
  have "(''green'', [31, 32, 34]) \<in> set GROUP_PROPERTIES" by (simp add: GROUP_PROPERTIES_def)
  from quality_of_group [OF this] show ?thesis
    by (simp add: dict_get_def GROUP_QUALITY_def)
qed

lemma float_sum_brown_green:
  "fadd (py_float (85 / 100)) (py_float (130 / 100)) = py_float (215 / 100)"
  by code_simp

lemma quality_brown_green:
  "get_monopoly_quality ({1, 3} \<union> {31, 32, 34}) = py_float (215 / 100)"
proof -
  have "(''brown'', [1, 3]) \<in> set GROUP_PROPERTIES" "(''green'', [31, 32, 34]) \<in> set GROUP_PROPERTIES"
    by (simp_all add: GROUP_PROPERTIES_def)
  from quality_union_of_groups [OF this]
  have "get_monopoly_quality ({1, 3} \<union> {31, 32, 34})
          = fadd (get_monopoly_quality {1, 3}) (get_monopoly_quality {31, 32, 34})"
    by simp
  then show ?thesis
    by (simp only: quality_brown quality_green float_sum_brown_green)
qed

lemma quality_empty: "get_monopoly_quality {} = 0"
  by (simp add: get_monopoly_quality_def GROUP_PROPERTIES_def quality_step_def)

text \<open>
  Claim C5. Monopoly quality is additive over two different complete groups: their
  member sets share no position, and the quality of the union is the (float) sum of the
  two qualities. The empty set has quality zero, and a group that is not wholly owned
  contributes nothing: taking its positions away leaves the quality unchanged.
  Owning 1 and 3 gives exactly 0.85, owning 31, 32 and 34 exactly 1.30, owning all five
  exactly 2.15.
\<close>

theorem monopoly_quality_additive:
  "((g1, ps1) \<in> set GROUP_PROPERTIES \<and> (g2, ps2) \<in> set GROUP_PROPERTIES \<and> g1 \<noteq> g2 \<longrightarrow>
      set ps1 \<inter> set ps2 = {}
      \<and> get_monopoly_quality (set ps1 \<union> set ps2)
          = fadd (get_monopoly_quality (set ps1)) (get_monopoly_quality (set ps2)))
   \<and> get_monopoly_quality {} = 0
   \<and> ((g, ps) \<in> set GROUP_PROPERTIES \<and> \<not> set ps \<subseteq> S \<longrightarrow>
        get_monopoly_quality S = get_monopoly_quality (S - set ps))
   \<and> get_monopoly_quality {1, 3} = py_float (85 / 100)
   \<and> get_monopoly_quality {31, 32, 34} = py_float (130 / 100)
   \<and> get_monopoly_quality ({1, 3} \<union> {31, 32, 34}) = py_float (215 / 100)"
  using groups_disjoint [of g1 ps1 g2 ps2] quality_union_of_groups [of g1 ps1 g2 ps2]
    quality_partial_group [of g ps S] quality_empty quality_brown quality_green
    quality_brown_green
  by blast

theorem monopoly_quality_additive_witness:
  "(''pink'', [11, 13, 14]) \<in> set GROUP_PROPERTIES
   \<and> (''darkBlue'', [37, 39]) \<in> set GROUP_PROPERTIES
   \<and> get_monopoly_quality ({11, 13, 14} \<union> {37, 39})
       = fadd (get_monopoly_quality {11, 13, 14}) (get_monopoly_quality {37, 39})
   \<and> (''orange'', [16, 18, 19]) \<in> set GROUP_PROPERTIES
   \<and> \<not> {16, 18, 19} \<subseteq> {1, 3, 16 :: int}
   \<and> get_monopoly_quality {1, 3, 16} = get_monopoly_quality ({1, 3, 16} - {16, 18, 19})"
proof -
  have a: "(''pink'', [11, 13, 14]) \<in> set GROUP_PROPERTIES"
    and b: "(''darkBlue'', [37, 39]) \<in> set GROUP_PROPERTIES"
    and c: "(''orange'', [16, 18, 19]) \<in> set GROUP_PROPERTIES"
    by (simp_all add: GROUP_PROPERTIES_def)
  have d: "\<not> set [16, 18, 19] \<subseteq> {1, 3, 16 :: int}" by simp
  show ?thesis
    using a b c d
      monopoly_quality_additive [of "''pink''" "[11, 13, 14]" "''darkBlue''" "[37, 39]"
        "''orange''" "[16, 18, 19]" "{1, 3, 16}"]
    by simp
qed

section \<open>Building decisions\<close>

lemma position_in_group_all:
  "list_all (\<lambda>(p, g). p \<in> set (GROUP_PROPERTIES_item g)) POSITION_TO_GROUP"
  by (simp add: POSITION_TO_GROUP_def GROUP_PROPERTIES_item_def dict_get_def GROUP_PROPERTIES_def)

lemma position_in_group:
  "position_group p = Some g \<Longrightarrow> p \<in> set (GROUP_PROPERTIES_item g)"
  using position_in_group_all position_group_cases [of p g] by (fastforce simp: list_all_iff)

lemma min_list_less_iff: "xs \<noteq> [] \<Longrightarrow> min_list xs < (c::int) \<longleftrightarrow> (\<exists>x\<in>set xs. x < c)"
  by (simp add: min_list_Min Min_less_iff)

lemma should_build_house_eq:
  "should_build_house ai state position =
     (\<exists>g. position_group position = Some g
        \<and> g \<noteq> ''railroad'' \<and> g \<noteq> ''utility''
        \<and> has_monopoly (properties (my_state state)) (Some g)
        \<and> 0 < available_houses state
        \<and> absolute_min_cash ai + 50 \<le> cash (my_state state) - dict_get HOUSE_COST g 100
        \<and> (\<forall>p\<in>set (GROUP_PROPERTIES_item g).
              houses_get (my_state state) position \<le> houses_get (my_state state) p)
        \<and> houses_get (my_state state) position < 4)"
proof (cases "position_group position")
  case None
  then show ?thesis by (simp add: should_build_house_def)
next
  case (Some g)
  have ne: "map (houses_get (my_state state)) (GROUP_PROPERTIES_item g) \<noteq> []"
    using position_in_group [OF Some] by auto
  show ?thesis
    using position_group_truthy [OF Some]
    by (auto simp: should_build_house_def Some Let_def not_less not_le min_list_less_iff [OF ne])
qed

lemma get_building_priority_eq:
  "get_building_priority ai state =
     concat (map (\<lambda>g. filter (should_build_house ai state) (GROUP_PROPERTIES_item g))
               [''orange'', ''red'', ''darkBlue'', ''yellow'', ''green'', ''pink'', ''lightBlue'', ''brown''])"
proof -
  have "filter (should_build_house ai state) (GROUP_PROPERTIES_item g) = []"
    if "\<not> has_monopoly (properties (my_state state)) (Some g)" "g \<in> set priority_groups" for g
  proof -
    have "\<not> should_build_house ai state p" if "p \<in> set (GROUP_PROPERTIES_item g)" for p
    proof -
      have "(g, GROUP_PROPERTIES_item g) \<in> set GROUP_PROPERTIES"
        using \<open>g \<in> set priority_groups\<close>
        by (auto simp: priority_groups_def GROUP_PROPERTIES_item_def dict_get_def GROUP_PROPERTIES_def)
      then have "position_group p = Some g" using that by (rule members_group)
      then show ?thesis using \<open>\<not> has_monopoly (properties (my_state state)) (Some g)\<close>
        by (simp add: should_build_house_eq)
    qed
    then show ?thesis by (simp add: filter_empty_conv)
  qed
  then have "map (\<lambda>g. if \<not> has_monopoly (properties (my_state state)) (Some g) then []
                           else filter (should_build_house ai state) (GROUP_PROPERTIES_item g)) priority_groups
     = map (\<lambda>g. filter (should_build_house ai state) (GROUP_PROPERTIES_item g)) priority_groups"
    by (intro map_cong) auto
  then show ?thesis
    by (simp add: get_building_priority_def Let_def) (simp add: priority_groups_def)
qed

text \<open>
  Claim C6, as the code has it. \<open>should_build_house\<close> is true iff the position has a
  group other than railroad and utility, the acting player holds the whole group, the
  bank has houses left (a positive inventory), the cash left after the house cost is at
  least the reserve plus 50, no property of the group has fewer houses than the
  position, and the position has fewer than 4 houses. \<open>get_building_priority\<close> returns
  the buildable positions group by group, in the order orange, red, dark blue, yellow,
  green, pink, light blue, brown.
\<close>

theorem should_build_house_buildable:
  "should_build_house ai state position =
     (\<exists>g. position_group position = Some g
        \<and> g \<noteq> ''railroad'' \<and> g \<noteq> ''utility''
        \<and> has_monopoly (properties (my_state state)) (Some g)
        \<and> 0 < available_houses state
        \<and> absolute_min_cash ai + 50 \<le> cash (my_state state) - dict_get HOUSE_COST g 100
        \<and> (\<forall>p\<in>set (GROUP_PROPERTIES_item g).
              houses_get (my_state state) position \<le> houses_get (my_state state) p)
        \<and> houses_get (my_state state) position < 4)
   \<and> get_building_priority ai state =
       concat (map (\<lambda>g. filter (should_build_house ai state) (GROUP_PROPERTIES_item g))
                 [''orange'', ''red'', ''darkBlue'', ''yellow'', ''green'', ''pink'',
                  ''lightBlue'', ''brown''])"
  using should_build_house_eq [of ai state position] get_building_priority_eq [of ai state]
  by blast

lemma building_test_state_simps:
  "cash (my_state building_test_state) = 1000"
  "properties (my_state building_test_state) = {16, 18, 19, 1, 3}"
  "houses_get (my_state building_test_state) p = 0"
  "available_houses building_test_state = 32"
  by (simp_all add: building_test_state_def GameState_init_def PlayerState_init_def houses_get_def)

lemma group_items:
  "GROUP_PROPERTIES_item ''orange'' = [16, 18, 19]"
  "GROUP_PROPERTIES_item ''red'' = [21, 23, 24]"
  "GROUP_PROPERTIES_item ''darkBlue'' = [37, 39]"
  "GROUP_PROPERTIES_item ''yellow'' = [26, 27, 29]"
  "GROUP_PROPERTIES_item ''green'' = [31, 32, 34]"
  "GROUP_PROPERTIES_item ''pink'' = [11, 13, 14]"
  "GROUP_PROPERTIES_item ''lightBlue'' = [6, 8, 9]"
  "GROUP_PROPERTIES_item ''brown'' = [1, 3]"
  by (simp_all add: GROUP_PROPERTIES_item_def dict_get_def GROUP_PROPERTIES_def)

theorem should_build_house_buildable_witness:
  "should_build_house StrategicAI_init building_test_state 16
   \<and> \<not> should_build_house StrategicAI_init building_test_state 21
   \<and> get_building_priority StrategicAI_init building_test_state = [16, 18, 19, 1, 3]"
proof -
  have g: "position_group 16 = Some ''orange''" "position_group 18 = Some ''orange''"
    "position_group 19 = Some ''orange''" "position_group 1 = Some ''brown''"
    "position_group 3 = Some ''brown''"
    by (simp_all add: position_group_def POSITION_TO_GROUP_def)
  have c: "dict_get HOUSE_COST ''orange'' 100 = 100" "dict_get HOUSE_COST ''brown'' 100 = 50"
    by (simp_all add: dict_get_def HOUSE_COST_def)
  have m: "has_monopoly {16, 18, 19, 1, 3} (Some ''orange'')"
    "has_monopoly {16, 18, 19, 1, 3} (Some ''brown'')"
    by (simp_all add: has_monopoly_def get_group_properties_def dict_get_def GROUP_PROPERTIES_def)
  have n: "\<not> has_monopoly {16, 18, 19, 1, 3} (Some g)"
    if "g \<in> {''red'', ''darkBlue'', ''yellow'', ''green'', ''pink'', ''lightBlue''}" for g
    using that
    by (auto simp: has_monopoly_def get_group_properties_def dict_get_def GROUP_PROPERTIES_def)
  have r: "absolute_min_cash StrategicAI_init = 75" by (simp add: StrategicAI_init_def)
  have yes: "should_build_house StrategicAI_init building_test_state p"
    if "p \<in> {16, 18, 19, 1, 3}" for p
    using that should_build_house_buildable [of StrategicAI_init building_test_state p] g c m r
    by (auto simp: building_test_state_simps)
  have no: "\<not> should_build_house StrategicAI_init building_test_state p"
    if "position_group p = Some h"
      "h \<in> {''red'', ''darkBlue'', ''yellow'', ''green'', ''pink'', ''lightBlue''}" for p h
    using that n [of h] should_build_house_buildable [of StrategicAI_init building_test_state p]
    by (auto simp: building_test_state_simps)
  have others: "\<not> should_build_house StrategicAI_init building_test_state p"
    if "p \<in> {21, 23, 24, 37, 39, 26, 27, 29, 31, 32, 34, 11, 13, 14, 6, 8, 9}" for p
  proof -
    from that obtain h where "position_group p = Some h"
      "h \<in> {''red'', ''darkBlue'', ''yellow'', ''green'', ''pink'', ''lightBlue''}"
      by (auto simp: position_group_def POSITION_TO_GROUP_def)
    then show ?thesis by (rule no)
  qed
  have "get_building_priority StrategicAI_init building_test_state = [16, 18, 19, 1, 3]"
    using should_build_house_buildable [of StrategicAI_init building_test_state 16]
    by (simp add: group_items yes others)
  then show ?thesis using yes [of 16] others [of 21] by simp
qed

text \<open>
  The claim puts the cap at "below 5". With four houses on every orange property all the
  conditions it lists hold at position 16, and \<open>should_build_house\<close> refuses.
\<close>

theorem should_build_house_four_houses:
  "\<not> should_build_house StrategicAI_init four_houses_state 16
   \<and> position_group 16 = Some ''orange''
   \<and> ''orange'' \<noteq> ''railroad'' \<and> ''orange'' \<noteq> ''utility''
   \<and> has_monopoly (properties (my_state four_houses_state)) (Some ''orange'')
   \<and> available_houses four_houses_state \<noteq> 0
   \<and> absolute_min_cash StrategicAI_init + 50
        \<le> cash (my_state four_houses_state) - dict_get HOUSE_COST ''orange'' 100
   \<and> \<not> houses_get (my_state four_houses_state) 16
          > min_list (map (houses_get (my_state four_houses_state)) (GROUP_PROPERTIES_item ''orange''))
   \<and> houses_get (my_state four_houses_state) 16 < 5"
proof -
  have g: "position_group 16 = Some ''orange''"
    by (simp add: position_group_def POSITION_TO_GROUP_def)
  have h: "houses_get (my_state four_houses_state) 16 = 4"
    "houses_get (my_state four_houses_state) 18 = 4"
    "houses_get (my_state four_houses_state) 19 = 4"
    by (simp_all add: four_houses_state_def four_houses_player_def GameState_init_def
          PlayerState_init_def houses_get_def)
  have s: "cash (my_state four_houses_state) = 1000"
    "properties (my_state four_houses_state) = {16, 18, 19}"
    "available_houses four_houses_state = 32"
    by (simp_all add: four_houses_state_def four_houses_player_def GameState_init_def
          PlayerState_init_def)
  have m: "has_monopoly {16, 18, 19} (Some ''orange'')"
    by (simp add: has_monopoly_def get_group_properties_def dict_get_def GROUP_PROPERTIES_def)
  have c: "dict_get HOUSE_COST ''orange'' 100 = 100"
    by (simp add: dict_get_def HOUSE_COST_def)
  have "\<not> should_build_house StrategicAI_init four_houses_state 16"
    by (simp add: should_build_house_eq g h)
  then show ?thesis
    using g h s m c by (simp add: group_items StrategicAI_init_def)
qed

section \<open>Auction decision\<close>



lemma rnd_nonneg: "0 \<le> x \<Longrightarrow> 0 \<le> rnd x"
  using rnd_mono [of 0 x] by (simp add: rnd_0)

lemma py_float_nonneg: "0 \<le> q \<Longrightarrow> 0 \<le> py_float q"
  by (simp add: py_float_def rnd_nonneg)





























section \<open>Trade evaluation\<close>

lemma evaluate_trade_filter:
  assumes "find (\<lambda>opp. player_id opp = from_player offer) (opponents state) = Some proposer"
    and "absolute_min_cash ai \<le> cash (my_state state) + cash_offered offer - cash_requested offer"
    and "q_self = get_monopoly_quality
                   ((properties (my_state state) - properties_requested offer) \<union> properties_offered offer)"
    and "q_other = get_monopoly_quality
                    ((properties proposer - properties_offered offer) \<union> properties_requested offer)"
    and "q_self > get_monopoly_quality (properties (my_state state))
         \<or> q_other > get_monopoly_quality (properties proposer)"
  shows "evaluate_trade iter ai state offer =
     (if q_other > fmul q_self (max_quality_ratio ai) then False
      else if q_self \<ge> fmul q_other (min_quality_ratio ai) then True
      else if q_other > get_monopoly_quality (properties proposer)
              \<and> \<not> q_self > get_monopoly_quality (properties (my_state state))
           then cash_offered offer - cash_requested offer > 200
           else True)"
  using assms(2,5) unfolding assms(3,4)
  by (cases "get_monopoly_quality (properties (my_state state))
               < get_monopoly_quality
                   ((properties (my_state state) - properties_requested offer) \<union> properties_offered offer)";
      cases "get_monopoly_quality (properties proposer)
               < get_monopoly_quality
                   ((properties proposer - properties_offered offer) \<union> properties_requested offer)")
     (simp_all add: evaluate_trade_def Let_def assms(1) trade_quality_filter_def not_less)

lemma cmp_141: "py_float (141 / 100) > fmul (py_float 1) (py_float (140 / 100))"
  by code_simp

lemma cmp_139: "fmul (fmul (py_float (139 / 100)) (py_float (85 / 100))) (py_float (140 / 100))
                 \<ge> py_float (139 / 100)"
  by code_simp

lemma filter_rejects_141:
  "\<not> trade_quality_filter StrategicAI_init (py_float 1) (py_float (141 / 100)) we they offer"
  using cmp_141 by (simp add: trade_quality_filter_def StrategicAI_init_def)

lemma filter_accepts_139:
  assumes "q_self \<ge> fmul (py_float (139 / 100)) (py_float (85 / 100))"
  shows "trade_quality_filter StrategicAI_init q_self (py_float (139 / 100)) we they offer"
proof -
  have "(0::rat) \<le> py_float (140 / 100)" by (simp add: py_float_nonneg)
  then have "fmul (py_float (139 / 100)) (py_float (85 / 100)) * py_float (140 / 100)
               \<le> q_self * py_float (140 / 100)"
    using assms by (intro mult_right_mono)
  then have "fmul (fmul (py_float (139 / 100)) (py_float (85 / 100))) (py_float (140 / 100))
               \<le> fmul q_self (py_float (140 / 100))"
    unfolding fmul_def [of "fmul _ _"] fmul_def [of q_self] by (rule rnd_mono)
  then have "py_float (139 / 100) \<le> fmul q_self (py_float (140 / 100))"
    using cmp_139 by (rule order_trans [rotated])
  then show ?thesis
    using assms by (simp add: trade_quality_filter_def StrategicAI_init_def not_less)
qed

lemma evaluate_trade_is_filter:
  assumes "find (\<lambda>opp. player_id opp = from_player offer) (opponents state) = Some proposer"
    and "absolute_min_cash ai \<le> cash (my_state state) + cash_offered offer - cash_requested offer"
    and "q_self = get_monopoly_quality
                   ((properties (my_state state) - properties_requested offer) \<union> properties_offered offer)"
    and "q_other = get_monopoly_quality
                    ((properties proposer - properties_offered offer) \<union> properties_requested offer)"
    and "q_self > get_monopoly_quality (properties (my_state state))
         \<or> q_other > get_monopoly_quality (properties proposer)"
  shows "evaluate_trade iter ai state offer =
           trade_quality_filter ai q_self q_other
             (q_self > get_monopoly_quality (properties (my_state state)))
             (q_other > get_monopoly_quality (properties proposer)) offer"
  using evaluate_trade_filter [OF assms, of iter]
  by (simp add: trade_quality_filter_def not_less)

text \<open>
  Claim C1. When the proposer of the offer is found among the opponents, the cash after
  the trade is at least the reserve, and the monopoly quality of at least one side
  increases, \<open>evaluate_trade\<close> is the quality filter, applied in this order: reject when
  the proposer's quality after the trade exceeds the acting player's times the maximum
  ratio (1.40); else accept when the acting player's quality is at least the proposer's
  times the minimum ratio (0.85); else, when the proposer gains a monopoly and the
  acting player does not, accept iff the net cash received exceeds 200; else accept.
  With qualities 1.0 and 1.41 the filter rejects; with the proposer's quality 1.39 and
  the acting player's at least 1.39 times 0.85 it accepts.
\<close>

theorem evaluate_trade_quality_filter:
  assumes "find (\<lambda>opp. player_id opp = from_player offer) (opponents state) = Some proposer"
    and "absolute_min_cash ai \<le> cash (my_state state) + cash_offered offer - cash_requested offer"
    and "q_self = get_monopoly_quality
                   ((properties (my_state state) - properties_requested offer) \<union> properties_offered offer)"
    and "q_other = get_monopoly_quality
                    ((properties proposer - properties_offered offer) \<union> properties_requested offer)"
    and "q_self > get_monopoly_quality (properties (my_state state))
         \<or> q_other > get_monopoly_quality (properties proposer)"
  shows "evaluate_trade iter ai state offer =
           (if q_other > fmul q_self (max_quality_ratio ai) then False
            else if q_self \<ge> fmul q_other (min_quality_ratio ai) then True
            else if q_other > get_monopoly_quality (properties proposer)
                    \<and> \<not> q_self > get_monopoly_quality (properties (my_state state))
                 then cash_offered offer - cash_requested offer > 200
                 else True)
    \<and> evaluate_trade iter ai state offer =
          trade_quality_filter ai q_self q_other
            (q_self > get_monopoly_quality (properties (my_state state)))
            (q_other > get_monopoly_quality (properties proposer)) offer
    \<and> max_quality_ratio StrategicAI_init = py_float (140 / 100)
    \<and> min_quality_ratio StrategicAI_init = py_float (85 / 100)
    \<and> \<not> trade_quality_filter StrategicAI_init (py_float 1) (py_float (141 / 100)) we they any_offer
    \<and> (q \<ge> fmul (py_float (139 / 100)) (py_float (85 / 100)) \<longrightarrow>
          trade_quality_filter StrategicAI_init q (py_float (139 / 100)) we they any_offer)"
proof -
  have "max_quality_ratio StrategicAI_init = py_float (140 / 100)"
    "min_quality_ratio StrategicAI_init = py_float (85 / 100)"
    by (simp_all add: StrategicAI_init_def)
  then show ?thesis
    using evaluate_trade_filter [OF assms, of iter] evaluate_trade_is_filter [OF assms, of iter]
      filter_rejects_141 [of we they any_offer] filter_accepts_139 [of q we they any_offer]
    by blast
qed

lemma quality_none_examples:
  "get_monopoly_quality {1} = 0" "get_monopoly_quality {34} = 0"
  "get_monopoly_quality {31, 32, 1} = 0"
  by (simp_all add: get_monopoly_quality_def GROUP_PROPERTIES_def quality_step_def)

theorem evaluate_trade_quality_filter_witness:
  "find (\<lambda>opp. player_id opp = from_player trade_test_offer) (opponents trade_test_state)
     = Some (PlayerState_init ''opp'' 500 {31, 32, 1})
   \<and> absolute_min_cash StrategicAI_init
        \<le> cash (my_state trade_test_state) + cash_offered trade_test_offer
            - cash_requested trade_test_offer
   \<and> py_float (130 / 100) > get_monopoly_quality {31, 32, 1}
   \<and> \<not> evaluate_trade sorted_list_of_set StrategicAI_init trade_test_state trade_test_offer"
proof -
  let ?opp = "PlayerState_init ''opp'' 500 {31, 32, 1}"
  have f: "find (\<lambda>opp. player_id opp = from_player trade_test_offer) (opponents trade_test_state)
             = Some ?opp"
    by (simp add: trade_test_state_def trade_test_offer_def GameState_init_def PlayerState_init_def)
  have c: "absolute_min_cash StrategicAI_init
             \<le> cash (my_state trade_test_state) + cash_offered trade_test_offer
                 - cash_requested trade_test_offer"
    by (simp add: trade_test_state_def trade_test_offer_def GameState_init_def
          PlayerState_init_def StrategicAI_init_def)
  have s: "(properties (my_state trade_test_state) - properties_requested trade_test_offer)
             \<union> properties_offered trade_test_offer = {1}"
    by (simp add: trade_test_state_def trade_test_offer_def GameState_init_def PlayerState_init_def)
  have o: "(properties ?opp - properties_offered trade_test_offer)
             \<union> properties_requested trade_test_offer = {31, 32, 34}"
    by (auto simp: trade_test_offer_def PlayerState_init_def)
  have p: "properties ?opp = {31, 32, 1}" "properties (my_state trade_test_state) = {34}"
    by (simp_all add: trade_test_state_def GameState_init_def PlayerState_init_def)
  have pos: "(0::rat) < py_float (130 / 100)"
    unfolding py_float_def by (rule rnd_pos) simp
  have qs: "0 = get_monopoly_quality
                  ((properties (my_state trade_test_state) - properties_requested trade_test_offer)
                   \<union> properties_offered trade_test_offer)"
    by (simp only: s quality_none_examples)
  have qo: "py_float (130 / 100) = get_monopoly_quality
                  ((properties ?opp - properties_offered trade_test_offer)
                   \<union> properties_requested trade_test_offer)"
    by (simp only: o quality_green)
  have gain: "0 > get_monopoly_quality (properties (my_state trade_test_state))
              \<or> py_float (130 / 100) > get_monopoly_quality (properties ?opp)"
    using pos by (simp only: p quality_none_examples) simp
  have z: "fmul 0 (max_quality_ratio StrategicAI_init) = 0"
    by (simp add: fmul_def rnd_0)
  have "\<not> evaluate_trade sorted_list_of_set StrategicAI_init trade_test_state trade_test_offer"
    using evaluate_trade_quality_filter [OF f c qs qo gain, of sorted_list_of_set] pos
    by (simp only: z) simp
  then show ?thesis
    using f c pos by (simp only: quality_none_examples) simp
qed

section \<open>Mortgage decision\<close>


lemma candidate_position [simp]: "entry_position (mortgage_candidate player pos) = pos"
  by (simp add: mortgage_candidate_def Let_def)













section \<open>Trade proposals\<close>

lemma their_group_offers_set:
  "offer \<in> set (their_group_offers iter ai state opp needed_pos item) \<longleftrightarrow>
     filter (\<lambda>p. p \<in> properties opp) (snd item) \<noteq> []
     \<and> filter (\<lambda>p. p \<in> properties (my_state state)) (snd item) \<noteq> []
     \<and> offer = make_offer (my_state state) opp
                 (hd (filter (\<lambda>p. p \<in> properties (my_state state)) (snd item))) needed_pos
     \<and> evaluate_trade iter ai state
         (reverse_offer (my_state state) opp
            (hd (filter (\<lambda>p. p \<in> properties (my_state state)) (snd item))) needed_pos offer)"
  by (auto simp: their_group_offers_def Let_def)

lemma group_offers_set:
  "offer \<in> set (group_offers iter ai state item) \<longleftrightarrow>
     (\<exists>p\<in>set (snd item). p \<in> properties (my_state state))
     \<and> (\<exists>needed_pos\<in>set (snd item). needed_pos \<notin> properties (my_state state)
          \<and> (\<exists>opp\<in>set (opponents state). needed_pos \<in> properties opp
               \<and> (\<exists>item'\<in>set GROUP_PROPERTIES.
                     offer \<in> set (their_group_offers iter ai state opp needed_pos item'))))"
  by (auto simp: group_offers_def Let_def filter_empty_conv split: if_splits)

lemma generate_trade_offers_set:
  "offer \<in> set (generate_trade_offers iter ai state) \<longleftrightarrow>
     (\<exists>item\<in>set GROUP_PROPERTIES. offer \<in> set (group_offers iter ai state item))"
  by (auto simp: generate_trade_offers_def)

lemma reverse_is_mirror:
  "reverse_offer player opp a b (make_offer player opp a b) = mirror_offer (make_offer player opp a b)"
  by (simp add: reverse_offer_def mirror_offer_def make_offer_def Let_def)

lemma hd_filter_in:
  assumes "filter P xs \<noteq> []"
  shows "P (hd (filter P xs))"
proof -
  have "hd (filter P xs) \<in> set (filter P xs)" using assms by (rule hd_in_set)
  then show ?thesis by simp
qed

lemma emitted_offer:
  assumes "offer \<in> set (generate_trade_offers iter ai state)"
  shows "\<exists>a b opp. opp \<in> set (opponents state)
           \<and> a \<in> properties (my_state state)
           \<and> b \<in> properties opp \<and> b \<notin> properties (my_state state)
           \<and> offer = make_offer (my_state state) opp a b
           \<and> evaluate_trade iter ai state (mirror_offer offer)"
proof -
  from assms obtain needed_pos opp and item' :: "string \<times> int list" where
    o: "opp \<in> set (opponents state)" "needed_pos \<in> properties opp"
       "needed_pos \<notin> properties (my_state state)"
       "offer \<in> set (their_group_offers iter ai state opp needed_pos item')"
    unfolding generate_trade_offers_set group_offers_set by blast
  let ?a = "hd (filter (\<lambda>p. p \<in> properties (my_state state)) (snd item'))"
  from o(4) have t: "filter (\<lambda>p. p \<in> properties (my_state state)) (snd item') \<noteq> []"
    "offer = make_offer (my_state state) opp ?a needed_pos"
    "evaluate_trade iter ai state (reverse_offer (my_state state) opp ?a needed_pos offer)"
    unfolding their_group_offers_set by blast+
  have a: "?a \<in> properties (my_state state)" using hd_filter_in [OF t(1)] .
  have "evaluate_trade iter ai state (mirror_offer offer)"
    using t(3) unfolding t(2) by (simp only: reverse_is_mirror)
  then show ?thesis using o(1,2,3) a t(2) by blast
qed

lemma make_offer_fields:
  "from_player (make_offer player opp a b) = player_id player"
  "to_player (make_offer player opp a b) = player_id opp"
  "properties_offered (make_offer player opp a b) = {a}"
  "properties_requested (make_offer player opp a b) = {b}"
  "cash_offered (make_offer player opp a b)
     = max (dict_get PROPERTY_PRICES b 0 - dict_get PROPERTY_PRICES a 0) 0"
  "cash_requested (make_offer player opp a b)
     = max (dict_get PROPERTY_PRICES a 0 - dict_get PROPERTY_PRICES b 0) 0"
  by (simp_all add: make_offer_def Let_def max_def)

text \<open>
  Claim C4, as the code has it. Every offer that \<open>generate_trade_offers\<close> emits goes from
  the acting player to an opponent and swaps one property \<open>a\<close> of the acting player for
  one property \<open>b\<close> of that opponent which the acting player does not own. Its cash
  terms are the difference of the two face prices, paid by the side that gives the
  cheaper property: the acting player offers the difference when \<open>b\<close> is dearer than
  \<open>a\<close> and requests it otherwise. The mirror of the offer is the reverse offer the source
  evaluates, and \<open>evaluate_trade\<close> accepts it: no offer whose mirror is rejected is
  emitted.
\<close>

theorem generate_trade_offers_swaps:
  assumes "offer \<in> set (generate_trade_offers iter ai state)"
  shows "\<exists>a b opp. opp \<in> set (opponents state)
           \<and> a \<in> properties (my_state state)
           \<and> b \<in> properties opp \<and> b \<notin> properties (my_state state)
           \<and> from_player offer = player_id (my_state state)
           \<and> to_player offer = player_id opp
           \<and> properties_offered offer = {a}
           \<and> properties_requested offer = {b}
           \<and> cash_offered offer
               = max (dict_get PROPERTY_PRICES b 0 - dict_get PROPERTY_PRICES a 0) 0
           \<and> cash_requested offer
               = max (dict_get PROPERTY_PRICES a 0 - dict_get PROPERTY_PRICES b 0) 0
           \<and> cash_offered offer + cash_requested offer
               = \<bar>dict_get PROPERTY_PRICES b 0 - dict_get PROPERTY_PRICES a 0\<bar>
           \<and> mirror_offer offer = reverse_offer (my_state state) opp a b offer
           \<and> evaluate_trade iter ai state (mirror_offer offer)"
proof -
  from emitted_offer [OF assms] obtain a b opp where
    e: "opp \<in> set (opponents state)" "a \<in> properties (my_state state)"
       "b \<in> properties opp" "b \<notin> properties (my_state state)"
       "offer = make_offer (my_state state) opp a b"
       "evaluate_trade iter ai state (mirror_offer offer)"
    by blast
  have "cash_offered offer + cash_requested offer
          = \<bar>dict_get PROPERTY_PRICES b 0 - dict_get PROPERTY_PRICES a 0\<bar>"
    by (simp add: e(5) make_offer_fields)
  moreover have "mirror_offer offer = reverse_offer (my_state state) opp a b offer"
    by (simp add: e(5) reverse_is_mirror)
  ultimately show ?thesis
    using e(1-4,6) make_offer_fields [of "my_state state" opp a b, folded e(5)] by blast
qed

lemma float_cmp_swap:
  "\<not> py_float (105 / 100) > fmul (py_float 1) (py_float (140 / 100))"
  "py_float 1 \<ge> fmul (py_float (105 / 100)) (py_float (85 / 100))"
  "py_float (105 / 100) > 0" "py_float 1 > 0"
  by code_simp+

lemma quality_swap_examples:
  "get_monopoly_quality {16, 18, 19} = py_float 1"
  "get_monopoly_quality {21, 23, 24} = py_float (105 / 100)"
  "get_monopoly_quality {16, 18, 21} = 0"
  "get_monopoly_quality {19, 23, 24} = 0"
proof -
  have "(''orange'', [16, 18, 19]) \<in> set GROUP_PROPERTIES" by (simp add: GROUP_PROPERTIES_def)
  from quality_of_group [OF this] show "get_monopoly_quality {16, 18, 19} = py_float 1"
    by (simp add: dict_get_def GROUP_QUALITY_def)
  have "(''red'', [21, 23, 24]) \<in> set GROUP_PROPERTIES" by (simp add: GROUP_PROPERTIES_def)
  from quality_of_group [OF this] show "get_monopoly_quality {21, 23, 24} = py_float (105 / 100)"
    by (simp add: dict_get_def GROUP_QUALITY_def)
  show "get_monopoly_quality {16, 18, 21} = 0" "get_monopoly_quality {19, 23, 24} = 0"
    by (simp_all add: get_monopoly_quality_def GROUP_PROPERTIES_def quality_step_def)
qed

lemma swap_offer_emitted:
  "swap_offer \<in> set (generate_trade_offers iter StrategicAI_init swap_state)"
proof -
  let ?me = "PlayerState_init ''me'' 500 {16, 18, 21}"
  let ?opp = "PlayerState_init ''opp'' 500 {19, 23, 24}"
  let ?rev = "reverse_offer ?me ?opp 21 19 swap_offer"
  have st: "my_state swap_state = ?me" "opponents swap_state = [?opp]"
    by (simp_all add: swap_state_def GameState_init_def)
  have pr: "properties ?me = {16, 18, 21}" "properties ?opp = {19, 23, 24}" "cash ?me = 500"
    "player_id ?opp = ''opp''"
    by (simp_all add: PlayerState_init_def)
  have mk: "make_offer ?me ?opp 21 19 = swap_offer"
    by (simp add: make_offer_def swap_offer_def PlayerState_init_def dict_get_def
          PROPERTY_PRICES_def)
  have rv: "from_player ?rev = ''opp''" "properties_offered ?rev = {19}"
    "properties_requested ?rev = {21}" "cash_offered ?rev = 20" "cash_requested ?rev = 0"
    by (simp_all add: reverse_offer_def swap_offer_def PlayerState_init_def)
  have f: "find (\<lambda>opp. player_id opp = from_player ?rev) (opponents swap_state) = Some ?opp"
    by (simp add: st rv pr)
  have c: "absolute_min_cash StrategicAI_init
             \<le> cash (my_state swap_state) + cash_offered ?rev - cash_requested ?rev"
    by (simp add: st rv pr StrategicAI_init_def)
  have s1: "(properties (my_state swap_state) - properties_requested ?rev) \<union> properties_offered ?rev
              = {16, 18, 19}"
    by (auto simp: st rv pr)
  have s2: "(properties ?opp - properties_offered ?rev) \<union> properties_requested ?rev = {21, 23, 24}"
    by (auto simp: rv pr)
  have qs: "py_float 1 = get_monopoly_quality
              ((properties (my_state swap_state) - properties_requested ?rev) \<union> properties_offered ?rev)"
    by (simp only: s1 quality_swap_examples)
  have qo: "py_float (105 / 100) = get_monopoly_quality
              ((properties ?opp - properties_offered ?rev) \<union> properties_requested ?rev)"
    by (simp only: s2 quality_swap_examples)
  have gain: "py_float 1 > get_monopoly_quality (properties (my_state swap_state))
              \<or> py_float (105 / 100) > get_monopoly_quality (properties ?opp)"
    using float_cmp_swap(4) by (simp only: st pr quality_swap_examples) simp
  have ratios: "max_quality_ratio StrategicAI_init = py_float (140 / 100)"
    "min_quality_ratio StrategicAI_init = py_float (85 / 100)"
    by (simp_all add: StrategicAI_init_def)
  have ev: "evaluate_trade iter StrategicAI_init swap_state ?rev"
    using evaluate_trade_filter [OF f c qs qo gain, of iter] float_cmp_swap(1,2)
    by (simp only: ratios if_False if_True)
  have tg: "swap_offer \<in> set (their_group_offers iter StrategicAI_init swap_state ?opp 19
                                 (''red'', [21, 23, 24]))"
    unfolding their_group_offers_set using ev by (simp add: st pr mk)
  have "swap_offer \<in> set (group_offers iter StrategicAI_init swap_state (''orange'', [16, 18, 19]))"
    unfolding group_offers_set
    using tg by (auto simp: st pr GROUP_PROPERTIES_def)
  then show ?thesis
    unfolding generate_trade_offers_set by (auto simp: GROUP_PROPERTIES_def)
qed

theorem generate_trade_offers_swaps_witness:
  "swap_offer \<in> set (generate_trade_offers sorted_list_of_set StrategicAI_init swap_state)
   \<and> cash_offered swap_offer + cash_requested swap_offer = 20
   \<and> evaluate_trade sorted_list_of_set StrategicAI_init swap_state (mirror_offer swap_offer)"
proof -
  have m: "swap_offer \<in> set (generate_trade_offers sorted_list_of_set StrategicAI_init swap_state)"
    by (rule swap_offer_emitted)
  have c: "cash_offered swap_offer + cash_requested swap_offer = 20"
    by (simp add: swap_offer_def)
  show ?thesis
    using m c generate_trade_offers_swaps [OF m] by blast
qed

text \<open>
  The claim has the cash flow toward the side that gives the cheaper property. In the
  emitted offer of 21 (price 220) for 19 (price 200) the acting player gives the dearer
  property and is the one who requests the 20.
\<close>

theorem generate_trade_offers_cash_direction:
  "swap_offer \<in> set (generate_trade_offers sorted_list_of_set StrategicAI_init swap_state)
   \<and> properties_offered swap_offer = {21} \<and> properties_requested swap_offer = {19}
   \<and> dict_get PROPERTY_PRICES 21 0 = 220 \<and> dict_get PROPERTY_PRICES 19 0 = 200
   \<and> cash_requested swap_offer = 20 \<and> cash_offered swap_offer = 0"
  using swap_offer_emitted [of sorted_list_of_set]
  by (simp add: swap_offer_def dict_get_def PROPERTY_PRICES_def)

end
